theory Spec2Isabelle
  imports Complex_Main "HOL-Library.Log_Nat"
begin

section \<open>Numbers\<close>

text \<open>
  The coordinates of a mesh are numpy \<open>float64\<close> values. A value is modelled as a real
  number or one of the three special values of IEEE 754; the finite values that the
  program computes with are the reals that binary64 represents. An addition, a
  multiplication or a division computes the exact real result and rounds it to the
  nearest binary64 value, a tie to the even significand; a result whose rounded
  magnitude reaches \<open>2 ^ 1024\<close> is an infinity. The special values follow the IEEE
  rules (division by zero, \<open>0 * inf\<close>, \<open>inf - inf\<close>). Zero carries no sign: the only
  division of the program divides by an extent, a maximum minus a minimum, which is
  \<open>+0.0\<close> when it is zero.
\<close>

datatype npfloat = Fin real | PInf | NInf | NaN

fun is_fin :: "npfloat \<Rightarrow> bool" where
  "is_fin (Fin a) = True"
| "is_fin PInf = False"
| "is_fin NInf = False"
| "is_fin NaN = False"

text \<open>The sign of an infinite result.\<close>

definition signed_inf :: "bool \<Rightarrow> npfloat" where
  "signed_inf positive = (if positive then PInf else NInf)"

text \<open>Rounding a real to the nearest integer, a tie to the even one.\<close>

definition rne :: "real \<Rightarrow> int" where
  "rne t = (let f = \<lfloor>t\<rfloor>; r = t - of_int f
            in if r < 1 / 2 then f else if 1 / 2 < r then f + 1
               else if even f then f else f + 1)"

text \<open>The binary exponent \<open>e\<close> of a positive real \<open>a\<close>: \<open>2 ^ e \<le> a < 2 ^ (e + 1)\<close>.\<close>

definition expo :: "real \<Rightarrow> int" where
  "expo a = (if 1 \<le> a then bitlen \<lfloor>a\<rfloor> - 1 else - bitlen (\<lceil>1 / a\<rceil> - 1))"

text \<open>
  The distance between the binary64 values next to a positive real: a significand of
  53 bits, and the exponent at least \<open>-1022\<close> (below it the values are subnormal,
  \<open>2 ^ -1074\<close> apart).
\<close>

definition quantum :: "real \<Rightarrow> real" where
  "quantum a = 2 powi (max (expo a) (- 1022) - 52)"

text \<open>The binary64 value of a real result: round to nearest, ties to even.\<close>

definition round64 :: "real \<Rightarrow> npfloat" where
  "round64 x =
     (if x = 0 then Fin 0
      else let q = quantum \<bar>x\<bar>; m = of_int (rne (\<bar>x\<bar> / q)) * q
           in if 2 ^ 1024 \<le> m then signed_inf (0 < x) else Fin (sgn x * m))"

text \<open>A decimal literal of the source denotes the binary64 value nearest to it.\<close>

definition lit :: "real \<Rightarrow> npfloat" where
  "lit r = round64 r"

fun fneg :: "npfloat \<Rightarrow> npfloat" where
  "fneg (Fin a) = Fin (- a)"
| "fneg PInf = NInf"
| "fneg NInf = PInf"
| "fneg NaN = NaN"

fun fadd :: "npfloat \<Rightarrow> npfloat \<Rightarrow> npfloat" where
  "fadd (Fin a) (Fin b) = round64 (a + b)"
| "fadd (Fin a) PInf = PInf"
| "fadd (Fin a) NInf = NInf"
| "fadd PInf (Fin b) = PInf"
| "fadd PInf PInf = PInf"
| "fadd PInf NInf = NaN"
| "fadd NInf (Fin b) = NInf"
| "fadd NInf PInf = NaN"
| "fadd NInf NInf = NInf"
| "fadd NaN y = NaN"
| "fadd x NaN = NaN"

definition fsub :: "npfloat \<Rightarrow> npfloat \<Rightarrow> npfloat" where
  "fsub x y = fadd x (fneg y)"

fun fmul :: "npfloat \<Rightarrow> npfloat \<Rightarrow> npfloat" where
  "fmul (Fin a) (Fin b) = round64 (a * b)"
| "fmul (Fin a) PInf = (if a = 0 then NaN else signed_inf (0 < a))"
| "fmul (Fin a) NInf = (if a = 0 then NaN else signed_inf (a < 0))"
| "fmul PInf (Fin b) = (if b = 0 then NaN else signed_inf (0 < b))"
| "fmul NInf (Fin b) = (if b = 0 then NaN else signed_inf (b < 0))"
| "fmul PInf PInf = PInf"
| "fmul PInf NInf = NInf"
| "fmul NInf PInf = NInf"
| "fmul NInf NInf = PInf"
| "fmul NaN y = NaN"
| "fmul x NaN = NaN"

text \<open>
  numpy's \<open>/\<close> on arrays does not raise on a zero divisor: it gives \<open>inf\<close>, \<open>-inf\<close>
  or \<open>nan\<close> (and prints a warning).
\<close>

fun fdiv :: "npfloat \<Rightarrow> npfloat \<Rightarrow> npfloat" where
  "fdiv (Fin a) (Fin b) =
     (if b = 0 then (if a = 0 then NaN else signed_inf (0 < a)) else round64 (a / b))"
| "fdiv (Fin a) PInf = Fin 0"
| "fdiv (Fin a) NInf = Fin 0"
| "fdiv PInf (Fin b) = signed_inf (0 \<le> b)"
| "fdiv NInf (Fin b) = signed_inf (b < 0)"
| "fdiv PInf PInf = NaN"
| "fdiv PInf NInf = NaN"
| "fdiv NInf PInf = NaN"
| "fdiv NInf NInf = NaN"
| "fdiv NaN y = NaN"
| "fdiv x NaN = NaN"

text \<open>
  The maximum and the minimum of numpy's reductions: a \<open>nan\<close> propagates. They select
  one of their arguments and do not round.
\<close>

fun fmax :: "npfloat \<Rightarrow> npfloat \<Rightarrow> npfloat" where
  "fmax (Fin a) (Fin b) = Fin (max a b)"
| "fmax (Fin a) PInf = PInf"
| "fmax (Fin a) NInf = Fin a"
| "fmax PInf (Fin b) = PInf"
| "fmax PInf PInf = PInf"
| "fmax PInf NInf = PInf"
| "fmax NInf (Fin b) = Fin b"
| "fmax NInf PInf = PInf"
| "fmax NInf NInf = NInf"
| "fmax NaN y = NaN"
| "fmax x NaN = NaN"

fun fmin :: "npfloat \<Rightarrow> npfloat \<Rightarrow> npfloat" where
  "fmin (Fin a) (Fin b) = Fin (min a b)"
| "fmin (Fin a) PInf = Fin a"
| "fmin (Fin a) NInf = NInf"
| "fmin PInf (Fin b) = Fin b"
| "fmin PInf PInf = PInf"
| "fmin PInf NInf = NInf"
| "fmin NInf (Fin b) = NInf"
| "fmin NInf PInf = NInf"
| "fmin NInf NInf = NInf"
| "fmin NaN y = NaN"
| "fmin x NaN = NaN"

section \<open>Meshes and transforms\<close>

type_synonym vec3 = "npfloat \<times> npfloat \<times> npfloat"

text \<open>
  A triangle mesh: vertex positions and triangles as index triples. A point cloud is a
  sequence of points.
\<close>

record mesh =
  vertices :: "vec3 list"
  faces :: "(nat \<times> nat \<times> nat) list"

type_synonym cloud = "vec3 list"

type_synonym row4 = "npfloat \<times> npfloat \<times> npfloat \<times> npfloat"
type_synonym mat4 = "row4 \<times> row4 \<times> row4 \<times> row4"

text \<open>\<open>np.eye(4)\<close>.\<close>

definition eye4 :: mat4 where
  "eye4 = ((Fin 1, Fin 0, Fin 0, Fin 0),
           (Fin 0, Fin 1, Fin 0, Fin 0),
           (Fin 0, Fin 0, Fin 1, Fin 0),
           (Fin 0, Fin 0, Fin 0, Fin 1))"

text \<open>\<open>m[:3,:3] = np.diag([a, b, c])\<close>: the upper left block, its zeros included.\<close>

fun set_block_diag :: "mat4 \<Rightarrow> vec3 \<Rightarrow> mat4" where
  "set_block_diag ((m00, m01, m02, m03), (m10, m11, m12, m13), (m20, m21, m22, m23), r3)
       (a, b, c) =
     ((a, Fin 0, Fin 0, m03), (Fin 0, b, Fin 0, m13), (Fin 0, Fin 0, c, m23), r3)"

text \<open>
  \<open>m[:3,:3] = [a, b, c]\<close>: numpy broadcasts a vector of 3 numbers over the rows of
  the upper left block.
\<close>

fun set_block_rows :: "mat4 \<Rightarrow> vec3 \<Rightarrow> mat4" where
  "set_block_rows ((m00, m01, m02, m03), (m10, m11, m12, m13), (m20, m21, m22, m23), r3)
       (a, b, c) =
     ((a, b, c, m03), (a, b, c, m13), (a, b, c, m23), r3)"

text \<open>\<open>m[:3,3] = [a, b, c]\<close>: the first three entries of the last column.\<close>

fun set_column3 :: "mat4 \<Rightarrow> vec3 \<Rightarrow> mat4" where
  "set_column3 ((m00, m01, m02, m03), (m10, m11, m12, m13), (m20, m21, m22, m23), r3)
       (a, b, c) =
     ((m00, m01, m02, a), (m10, m11, m12, b), (m20, m21, m22, c), r3)"

text \<open>
  Modelled from the spec: \<open>Trimesh.apply_transform\<close> is code of the trimesh library.
  The spec's Transform is applied "by multiplying every vertex position (homogeneous
  form) on the left"; the triangles are kept. The products of a row are summed from
  left to right.
\<close>

fun row_dot :: "row4 \<Rightarrow> vec3 \<Rightarrow> npfloat" where
  "row_dot (a, b, c, d) (x, y, z) =
     fadd (fadd (fadd (fmul a x) (fmul b y)) (fmul c z)) (fmul d (Fin 1))"

fun transform_point :: "mat4 \<Rightarrow> vec3 \<Rightarrow> vec3" where
  "transform_point (r0, r1, r2, r3) p = (row_dot r0 p, row_dot r1 p, row_dot r2 p)"

definition apply_transform :: "mat4 \<Rightarrow> mesh \<Rightarrow> mesh" where
  "apply_transform m msh = msh\<lparr>vertices := map (transform_point m) (vertices msh)\<rparr>"

text \<open>
  Modelled from the spec: \<open>Trimesh.extents\<close> is code of the trimesh library. The spec's
  extents are the "componentwise (max - min) over all vertices". A mesh with no vertex
  has no extents: the attribute is \<open>None\<close>.
\<close>

fun np_max :: "npfloat list \<Rightarrow> npfloat" where
  "np_max [] = NaN"
| "np_max (x # xs) = fold fmax xs x"

fun np_min :: "npfloat list \<Rightarrow> npfloat" where
  "np_min [] = NaN"
| "np_min (x # xs) = fold fmin xs x"

definition ptp :: "npfloat list \<Rightarrow> npfloat" where
  "ptp xs = fsub (np_max xs) (np_min xs)"

definition extents :: "mesh \<Rightarrow> vec3 option" where
  "extents msh =
     (if vertices msh = [] then None
      else Some (ptp (map fst (vertices msh)),
                 ptp (map (fst \<circ> snd) (vertices msh)),
                 ptp (map (snd \<circ> snd) (vertices msh))))"

section \<open>Python values and the object store\<close>

text \<open>
  Meshes are mutable objects: \<open>apply_transform\<close> changes a mesh in place and
  \<open>scale_mesh\<close> and \<open>translate_mesh\<close> return the object they were given. The store
  is the list of all mesh objects, a reference is an index into it, and a Python
  variable that holds a mesh or \<open>None\<close> is a \<open>ref option\<close>. \<open>copy.deepcopy\<close>
  allocates a new object at the end of the store.
\<close>

type_synonym ref = nat
type_synonym heap = "mesh list"

definition deepcopy :: "heap \<Rightarrow> ref \<Rightarrow> heap \<times> ref" where
  "deepcopy h r = (h @ [h ! r], length h)"

text \<open>
  The second argument of \<open>scale_mesh\<close> and \<open>translate_mesh\<close>: a list of numbers, a
  list of lists of numbers, an \<open>np.ndarray\<close> of numbers of dimension 0, 1 or 2 (of
  dimension 2: its rows), an array of three or more dimensions or a list nested that
  deep (with its length, the only part of it that the functions read before numpy
  refuses it), or a value that is neither a list nor an array. Lists and arrays of
  other objects than numbers are not modelled.
\<close>

datatype pyarg =
    PyList "npfloat list"
  | PyNested "npfloat list list"
  | NdArray0 npfloat
  | NdArray "npfloat list"
  | NdArray2 "npfloat list list"
  | NdArrayN nat
  | PyOther

datatype py_exn = TypeError | ValueError | AttributeError | SamplingError

datatype 'a outcome = Returned 'a | Raised py_exn

text \<open>
  The test \<open>not isinstance(x, (list, np.ndarray)) or len(x) != 3\<close> of lines 79 and
  89. \<open>len\<close> is asked of a list or an array only; the \<open>len\<close> of an array is the
  length of its first axis, and an array of dimension 0 has none: \<open>len\<close> raises a
  \<open>TypeError\<close>.
\<close>

fun not_three :: "pyarg \<Rightarrow> bool outcome" where
  "not_three (PyList xs) = Returned (length xs \<noteq> 3)"
| "not_three (PyNested rows) = Returned (length rows \<noteq> 3)"
| "not_three (NdArray0 x) = Raised TypeError"
| "not_three (NdArray xs) = Returned (length xs \<noteq> 3)"
| "not_three (NdArray2 rows) = Returned (length rows \<noteq> 3)"
| "not_three (NdArrayN n) = Returned (n \<noteq> 3)"
| "not_three PyOther = Returned True"

text \<open>The numbers of a flat list or of a one-dimensional array.\<close>

fun as_sequence :: "pyarg \<Rightarrow> npfloat list option" where
  "as_sequence (PyList xs) = Some xs"
| "as_sequence (NdArray xs) = Some xs"
| "as_sequence x = None"

definition vec_of :: "npfloat list \<Rightarrow> vec3" where
  "vec_of xs = (xs ! 0, xs ! 1, xs ! 2)"

fun ndarray3 :: "vec3 \<Rightarrow> pyarg" where
  "ndarray3 (a, b, c) = NdArray [a, b, c]"

text \<open>
  \<open>np.diag\<close> of 3 rows of numbers is their diagonal, a vector of \<open>min 3 k\<close> numbers
  when every row has \<open>k\<close> numbers. Rows of different lengths are no array: numpy
  raises a \<open>ValueError\<close>.
\<close>

definition rectangular :: "npfloat list list \<Rightarrow> bool" where
  "rectangular rows = list_all (\<lambda>r. length r = length (hd rows)) rows"

definition np_diagonal :: "npfloat list list \<Rightarrow> npfloat list" where
  "np_diagonal rows = map (\<lambda>i. rows ! i ! i) [0 ..< min (length rows) (length (hd rows))]"

text \<open>
  \<open>m[:3,:3] = np.diag(rows)\<close> for 3 rows: the assignment broadcasts a diagonal of 3
  numbers over the rows of the block and a diagonal of 1 number over the whole block;
  a diagonal of 0 or 2 numbers cannot be broadcast and numpy raises a \<open>ValueError\<close>.
\<close>

definition broadcast_diagonal :: "mat4 \<Rightarrow> npfloat list list \<Rightarrow> mat4 option" where
  "broadcast_diagonal m rows =
     (if \<not> rectangular rows then None
      else case np_diagonal rows of
             [d] \<Rightarrow> Some (set_block_rows m (d, d, d))
           | [a, b, c] \<Rightarrow> Some (set_block_rows m (a, b, c))
           | _ \<Rightarrow> None)"

text \<open>
  Lines 82 and 83 for an argument of length 3, \<open>None\<close> when numpy raises a
  \<open>ValueError\<close>: \<open>np.eye(4)\<close> with \<open>np.diag(scale_factors)\<close> assigned to its upper
  left block. \<open>np.diag\<close> of a flat sequence is the diagonal matrix, of a
  two-dimensional argument the diagonal; it refuses three or more dimensions.
\<close>

fun scale_matrix_of :: "pyarg \<Rightarrow> mat4 option" where
  "scale_matrix_of (PyList fs) = Some (set_block_diag eye4 (vec_of fs))"
| "scale_matrix_of (NdArray fs) = Some (set_block_diag eye4 (vec_of fs))"
| "scale_matrix_of (PyNested rows) = broadcast_diagonal eye4 rows"
| "scale_matrix_of (NdArray2 rows) = broadcast_diagonal eye4 rows"
| "scale_matrix_of x = None"

text \<open>
  Lines 92 and 93 for an argument of length 3, \<open>None\<close> when numpy raises a
  \<open>ValueError\<close>: \<open>np.eye(4)\<close> with the translation assigned to the last column. Only
  a flat sequence of 3 numbers fits the 3 entries of the column.
\<close>

fun translate_matrix_of :: "pyarg \<Rightarrow> mat4 option" where
  "translate_matrix_of (PyList ts) = Some (set_column3 eye4 (vec_of ts))"
| "translate_matrix_of (NdArray ts) = Some (set_column3 eye4 (vec_of ts))"
| "translate_matrix_of x = None"

section \<open>The library functions the program calls\<close>

text \<open>
  \<open>Trimesh.centroid\<close>, \<open>Trimesh.sample\<close> and \<open>trimesh.registration.icp\<close> are
  code of the trimesh library; the program is modelled for any behaviour of them.
  The sampler draws random points and may raise; the registration may raise, return
  \<open>None\<close>, or return a matrix (alone or first in a tuple).
\<close>

datatype icp_result = IcpRaises | IcpNone | IcpMatrix mat4

record library =
  centroid :: "mesh \<Rightarrow> vec3"
  sample :: "mesh \<Rightarrow> nat \<Rightarrow> cloud option"
  icp :: "cloud \<Rightarrow> cloud \<Rightarrow> nat \<Rightarrow> real \<Rightarrow> icp_result"

section \<open>The program\<close>

text \<open>
  The result of \<open>scale_mesh\<close> and of \<open>translate_mesh\<close> is the new store and either
  the returned value, the mesh or \<open>None\<close>, or the exception that left the function.
  \<open>mesh is None\<close> is tested first, so a \<open>None\<close> mesh returns \<open>None\<close> whatever the
  second argument is.
\<close>

definition scale_mesh :: "heap \<Rightarrow> ref option \<Rightarrow> pyarg \<Rightarrow> heap \<times> ref option outcome" where
  "scale_mesh h mesh scale_factors =
     (case mesh of
        None \<Rightarrow> (h, Returned None)
      | Some r \<Rightarrow>
          (case not_three scale_factors of
             Raised e \<Rightarrow> (h, Raised e)
           | Returned True \<Rightarrow> (h, Returned None)
           | Returned False \<Rightarrow>
               (case scale_matrix_of scale_factors of
                  None \<Rightarrow> (h, Raised ValueError)
                | Some scale_matrix \<Rightarrow>
                    (h[r := apply_transform scale_matrix (h ! r)], Returned (Some r)))))"

definition translate_mesh :: "heap \<Rightarrow> ref option \<Rightarrow> pyarg \<Rightarrow> heap \<times> ref option outcome" where
  "translate_mesh h mesh translation =
     (case mesh of
        None \<Rightarrow> (h, Returned None)
      | Some r \<Rightarrow>
          (case not_three translation of
             Raised e \<Rightarrow> (h, Raised e)
           | Returned True \<Rightarrow> (h, Returned None)
           | Returned False \<Rightarrow>
               (case translate_matrix_of translation of
                  None \<Rightarrow> (h, Raised ValueError)
                | Some transform \<Rightarrow>
                    (h[r := apply_transform transform (h ! r)], Returned (Some r)))))"

text \<open>
  The two samplings are outside the \<open>try\<close>: an exception of the sampler leaves the
  function. Inside the \<open>try\<close>, an exception of the registration, and the exception of
  \<open>apply_transform\<close> on a \<open>None\<close> result, end in \<open>return None\<close>.
\<close>

definition align_meshes_icp ::
  "library \<Rightarrow> heap \<Rightarrow> ref option \<Rightarrow> ref option \<Rightarrow> nat \<Rightarrow> real \<Rightarrow> heap \<times> ref option outcome"
where
  "align_meshes_icp lib h target_mesh source_mesh max_iterations threshold =
     (case (target_mesh, source_mesh) of
        (Some t, Some s) \<Rightarrow>
          (let (h1, source_copy) = deepcopy h s
           in case sample lib (h1 ! t) 5000 of
                None \<Rightarrow> (h1, Raised SamplingError)
              | Some target_points \<Rightarrow>
                  (case sample lib (h1 ! source_copy) 5000 of
                     None \<Rightarrow> (h1, Raised SamplingError)
                   | Some source_points \<Rightarrow>
                       (case icp lib source_points target_points max_iterations threshold of
                          IcpRaises \<Rightarrow> (h1, Returned None)
                        | IcpNone \<Rightarrow> (h1, Returned None)
                        | IcpMatrix transform \<Rightarrow>
                            (h1[source_copy := apply_transform transform (h1 ! source_copy)],
                             Returned (Some source_copy)))))
      | _ \<Rightarrow> (h, Returned None))"

text \<open>Lines 111 to 114: the scale factors, from the two extents and the gender.\<close>

fun pre_scale_factors :: "string \<Rightarrow> vec3 \<Rightarrow> vec3 \<Rightarrow> vec3" where
  "pre_scale_factors gender (bx, by, bz) (sx, sy, sz) =
     (if gender = ''female''
      then (fmul (fdiv bx sx) (lit 0.71), fmul (fdiv by sy) (lit 0.41),
            fmul (fdiv bz sz) (lit 1.42))
      else (fmul (fdiv bx sx) (lit 0.79), fmul (fdiv by sy) (lit 0.43),
            fmul (fdiv bz sz) (lit 1.25)))"

text \<open>Lines 118 and 119: the translation, from the two centroids and the body's extents.\<close>

fun fit_translation :: "vec3 \<Rightarrow> vec3 \<Rightarrow> vec3 \<Rightarrow> vec3" where
  "fit_translation (cx, cy, cz) (dx, dy, dz) (bx, by, bz) =
     (fsub cx dx, fadd (fsub cy dy) (fmul by (lit 0.1)), fsub cz dz)"

text \<open>Lines 126 to 129: the factors of the last scaling.\<close>

definition post_scale_factors :: "string \<Rightarrow> pyarg" where
  "post_scale_factors gender =
     (if gender = ''female'' then PyList [lit 0.9, lit 1.04, lit 1.2]
      else PyList [Fin 1, lit 1.04, lit 1.3])"

text \<open>
  The result is the new store and either the returned pair or the exception that left
  the function. An extent that is \<open>None\<close> makes the division raise a \<open>TypeError\<close>;
  a \<open>None\<close> from \<open>scale_mesh\<close> would make \<open>.centroid\<close> raise an
  \<open>AttributeError\<close>; an exception of \<open>scale_mesh\<close>, \<open>translate_mesh\<close> or
  \<open>align_meshes_icp\<close> leaves the function.
\<close>

definition fit_t_shirt ::
  "library \<Rightarrow> heap \<Rightarrow> ref option \<Rightarrow> ref option \<Rightarrow> string
     \<Rightarrow> heap \<times> (ref option \<times> ref option) outcome"
where
  "fit_t_shirt lib h body_mesh shirt_mesh gender =
     (case (body_mesh, shirt_mesh) of
        (Some b, Some s) \<Rightarrow>
          (case (extents (h ! b), extents (h ! s)) of
             (Some body_size, Some shirt_size) \<Rightarrow>
               (let scale_factors = pre_scale_factors gender body_size shirt_size;
                    (h1, shirt_copy) = deepcopy h s
                in case scale_mesh h1 (Some shirt_copy) (ndarray3 scale_factors) of
                     (h2, Raised e) \<Rightarrow> (h2, Raised e)
                   | (h2, Returned None) \<Rightarrow> (h2, Raised AttributeError)
                   | (h2, Returned (Some sc)) \<Rightarrow>
                       (let translation =
                              fit_translation (centroid lib (h2 ! b)) (centroid lib (h2 ! sc)) body_size
                        in case translate_mesh h2 (Some sc) (ndarray3 translation) of
                             (h3, Raised e) \<Rightarrow> (h3, Raised e)
                           | (h3, Returned positioned_shirt) \<Rightarrow>
                               (case align_meshes_icp lib h3 body_mesh positioned_shirt 100 0.01 of
                                  (h4, Raised e) \<Rightarrow> (h4, Raised e)
                                | (h4, Returned aligned) \<Rightarrow>
                                    (let aligned_shirt =
                                           (case aligned of
                                              None \<Rightarrow> positioned_shirt
                                            | Some a \<Rightarrow> Some a)
                                     in case scale_mesh h4 aligned_shirt (post_scale_factors gender) of
                                          (h5, Raised e) \<Rightarrow> (h5, Raised e)
                                        | (h5, Returned final_shirt) \<Rightarrow>
                                            (h5, Returned (final_shirt, body_mesh))))))
           | _ \<Rightarrow> (h, Raised TypeError))
      | _ \<Rightarrow> (h, Returned (None, None)))"

section \<open>Predicates and examples for the statements\<close>

text \<open>A vector of three numbers: none of them is \<open>inf\<close>, \<open>-inf\<close> or \<open>nan\<close>.\<close>

fun finite_vec :: "vec3 \<Rightarrow> bool" where
  "finite_vec (x, y, z) = (is_fin x \<and> is_fin y \<and> is_fin z)"

text \<open>
  A value of the type \<open>float64\<close>: a special value, or a real that binary64 represents,
  one that rounding leaves as it is.
\<close>

fun is_float64 :: "npfloat \<Rightarrow> bool" where
  "is_float64 (Fin a) = (round64 a = Fin a)"
| "is_float64 PInf = True"
| "is_float64 NInf = True"
| "is_float64 NaN = True"

fun float64_vec :: "vec3 \<Rightarrow> bool" where
  "float64_vec (x, y, z) = (is_float64 x \<and> is_float64 y \<and> is_float64 z)"

text \<open>
  A mesh whose coordinates are all finite \<open>float64\<close> numbers, as every mesh read from
  a file is.
\<close>

definition finite_mesh :: "mesh \<Rightarrow> bool" where
  "finite_mesh msh = list_all (\<lambda>p. finite_vec p \<and> float64_vec p) (vertices msh)"

text \<open>
  The spec's invariant of a mesh the pipeline may work on: at least one triangle, and
  every index of a triangle is the index of a vertex.
\<close>

fun face_ok :: "nat \<Rightarrow> nat \<times> nat \<times> nat \<Rightarrow> bool" where
  "face_ok n (i, j, k) = (i < n \<and> j < n \<and> k < n)"

definition nonempty_mesh :: "mesh \<Rightarrow> bool" where
  "nonempty_mesh msh =
     (faces msh \<noteq> [] \<and> list_all (face_ok (length (vertices msh))) (faces msh))"

text \<open>Componentwise product, quotient and sum of two vectors, in \<open>float64\<close>.\<close>

fun vmul :: "vec3 \<Rightarrow> vec3 \<Rightarrow> vec3" where
  "vmul (a, b, c) (x, y, z) = (fmul a x, fmul b y, fmul c z)"

fun vdiv :: "vec3 \<Rightarrow> vec3 \<Rightarrow> vec3" where
  "vdiv (a, b, c) (x, y, z) = (fdiv a x, fdiv b y, fdiv c z)"

fun vadd :: "vec3 \<Rightarrow> vec3 \<Rightarrow> vec3" where
  "vadd (x, y, z) (a, b, c) = (fadd x a, fadd y b, fadd z c)"

text \<open>
  The sum of a coordinate and a number is exact: it is a \<open>float64\<close> number, so the
  addition does not round. A translation is exact on a point when it is so on each
  coordinate.
\<close>

fun exact_add :: "npfloat \<Rightarrow> npfloat \<Rightarrow> bool" where
  "exact_add (Fin x) (Fin a) = (round64 (x + a) = Fin (x + a))"
| "exact_add x a = False"

fun exact_shift :: "vec3 \<Rightarrow> vec3 \<Rightarrow> bool" where
  "exact_shift (a, b, c) (x, y, z) = (exact_add x a \<and> exact_add y b \<and> exact_add z c)"

text \<open>
  Modelled from the spec: a centroid for the examples, the spec's "arithmetic mean of
  vertex positions" (\<open>np.mean\<close>: the sum divided by the count).
\<close>

definition np_mean :: "npfloat list \<Rightarrow> npfloat" where
  "np_mean xs = fdiv (fold (\<lambda>x acc. fadd acc x) xs (Fin 0)) (Fin (real (length xs)))"

definition vertex_mean :: "mesh \<Rightarrow> vec3" where
  "vertex_mean msh =
     (np_mean (map fst (vertices msh)),
      np_mean (map (fst \<circ> snd) (vertices msh)),
      np_mean (map (snd \<circ> snd) (vertices msh)))"

text \<open>
  Two libraries for the examples. Their sampler returns the first vertices of the mesh
  and raises on a mesh with no triangle; the registration of the first always raises,
  that of the second returns the identity.
\<close>

definition first_vertices :: "mesh \<Rightarrow> nat \<Rightarrow> cloud option" where
  "first_vertices msh n = (if faces msh = [] then None else Some (take n (vertices msh)))"

definition failing_lib :: library where
  "failing_lib =
     \<lparr>centroid = vertex_mean, sample = first_vertices, icp = (\<lambda>src tgt n t. IcpRaises)\<rparr>"

definition identity_lib :: library where
  "identity_lib =
     \<lparr>centroid = vertex_mean, sample = first_vertices, icp = (\<lambda>src tgt n t. IcpMatrix eye4)\<rparr>"

text \<open>
  A body with extents \<open>[1, 1, 1]\<close>, a garment with extents \<open>[2, 2, 2]\<close>, a flat
  garment with extents \<open>[0, 1, 1]\<close>, a mesh with no vertex and no triangle, the
  body of the spec's scenario, with extents \<open>[1.8, 0.9, 0.5]\<close>, and a triangle with
  an infinite coordinate.
\<close>

definition tetra_faces :: "(nat \<times> nat \<times> nat) list" where
  "tetra_faces = [(0, 1, 2), (0, 1, 3), (0, 2, 3), (1, 2, 3)]"

definition unit_body :: mesh where
  "unit_body =
     \<lparr>vertices = [(Fin 0, Fin 0, Fin 0), (Fin 1, Fin 0, Fin 0),
                  (Fin 0, Fin 1, Fin 0), (Fin 0, Fin 0, Fin 1)],
      faces = tetra_faces\<rparr>"

definition wide_shirt :: mesh where
  "wide_shirt =
     \<lparr>vertices = [(Fin 0, Fin 0, Fin 0), (Fin 2, Fin 0, Fin 0),
                  (Fin 0, Fin 2, Fin 0), (Fin 0, Fin 0, Fin 2)],
      faces = tetra_faces\<rparr>"

definition flat_shirt :: mesh where
  "flat_shirt =
     \<lparr>vertices = [(Fin 0, Fin 0, Fin 0), (Fin 0, Fin 1, Fin 0), (Fin 0, Fin 0, Fin 1)],
      faces = [(0, 1, 2)]\<rparr>"

definition empty_mesh :: mesh where
  "empty_mesh = \<lparr>vertices = [], faces = []\<rparr>"

definition scenario_body :: mesh where
  "scenario_body =
     \<lparr>vertices = [(Fin 0, Fin 0, Fin 0), (lit 1.8, Fin 0, Fin 0),
                  (Fin 0, lit 0.9, Fin 0), (Fin 0, Fin 0, lit 0.5)],
      faces = tetra_faces\<rparr>"

definition inf_mesh :: mesh where
  "inf_mesh =
     \<lparr>vertices = [(PInf, Fin 1, Fin 1), (Fin 0, Fin 0, Fin 0), (Fin 0, Fin 1, Fin 0)],
      faces = [(0, 1, 2)]\<rparr>"

text \<open>The factors of the last scaling, as a vector.\<close>

definition post_vec :: "string \<Rightarrow> vec3" where
  "post_vec gender =
     (if gender = ''female'' then (lit 0.9, lit 1.04, lit 1.2) else (Fin 1, lit 1.04, lit 1.3))"

text \<open>
  The garment of the examples after the first scaling, after the positioning and after
  the last scaling with the male profile, the flat garment after the pipeline, and the garment of the spec's
  scenario after the first scaling and after the positioning.
\<close>

definition scaled_example :: mesh where
  "scaled_example =
     \<lparr>vertices = [(Fin 0, Fin 0, Fin 0), (lit 0.79, Fin 0, Fin 0),
                  (Fin 0, lit 0.43, Fin 0), (Fin 0, Fin 0, lit 1.25)],
      faces = tetra_faces\<rparr>"

definition positioned_example :: mesh where
  "positioned_example =
     \<lparr>vertices =
        [(Fin (236438980436951 / 4503599627370496),
          Fin (8736983277098763 / 36028797018963968), Fin (- (1 / 16))),
         (Fin (3794282686059643 / 4503599627370496),
          Fin (8736983277098763 / 36028797018963968), Fin (- (1 / 16))),
         (Fin (236438980436951 / 4503599627370496),
          Fin (6057341498813317 / 9007199254740992), Fin (- (1 / 16))),
         (Fin (236438980436951 / 4503599627370496),
          Fin (8736983277098763 / 36028797018963968), Fin (19 / 16))],
      faces = tetra_faces\<rparr>"

definition fitted_example :: mesh where
  "fitted_example =
     \<lparr>vertices =
        [(Fin (236438980436951 / 4503599627370496),
          Fin (4543231304091357 / 18014398509481984),
          Fin (- (5854679515581645 / 72057594037927936))),
         (Fin (3794282686059643 / 4503599627370496),
          Fin (4543231304091357 / 18014398509481984),
          Fin (- (5854679515581645 / 72057594037927936))),
         (Fin (236438980436951 / 4503599627370496),
          Fin (3149817579382925 / 4503599627370496),
          Fin (- (5854679515581645 / 72057594037927936))),
         (Fin (236438980436951 / 4503599627370496),
          Fin (4543231304091357 / 18014398509481984),
          Fin (6952431924753203 / 4503599627370496))],
      faces = tetra_faces\<rparr>"

definition nan_shirt :: mesh where
  "nan_shirt = \<lparr>vertices = [(NaN, NaN, NaN), (NaN, NaN, NaN), (NaN, NaN, NaN)],
                 faces = [(0, 1, 2)]\<rparr>"

definition scenario_scaled :: mesh where
  "scenario_scaled =
     \<lparr>vertices = [(Fin 0, Fin 0, Fin 0),
                  (Fin (6404118670120846 / 4503599627370496), Fin 0, Fin 0),
                  (Fin 0, lit 0.387, Fin 0),
                  (Fin 0, Fin 0, Fin 0.625)],
      faces = tetra_faces\<rparr>"

definition scenario_positioned :: mesh where
  "scenario_positioned =
     \<lparr>vertices =
        [(Fin (1702360659146047 / 18014398509481984),
          Fin (3931642474694443 / 18014398509481984), Fin (- (1 / 32))),
         (Fin (3414854417453679 / 2251799813685248),
          Fin (3931642474694443 / 18014398509481984), Fin (- (1 / 32))),
         (Fin (1702360659146047 / 18014398509481984),
          Fin (2725803674465993 / 4503599627370496), Fin (- (1 / 32))),
         (Fin (1702360659146047 / 18014398509481984),
          Fin (3931642474694443 / 18014398509481984), Fin (19 / 32))],
      faces = tetra_faces\<rparr>"

section \<open>Facts about the rounding\<close>

lemma rne_of_int [simp]: "rne (of_int n) = n"
  by (simp add: rne_def)

lemma rne_ge: "of_int m \<le> t \<Longrightarrow> m \<le> rne t"
  by (auto simp: rne_def Let_def le_floor_iff) (simp add: add.commute add_increasing le_floor_iff)+

lemma rne_le: "t \<le> of_int m \<Longrightarrow> rne t \<le> m"
proof (cases "t = of_int m")
  case True
  then show ?thesis by simp
next
  case False
  assume "t \<le> of_int m"
  with False have "t < of_int m" by simp
  then have "\<lfloor>t\<rfloor> < m" by (simp add: floor_less_iff)
  then show ?thesis by (auto simp: rne_def Let_def)
qed

lemma powi2_less_iff: "(2::real) powi m < 2 powi n \<longleftrightarrow> m < n"
proof
  assume l: "(2::real) powi m < 2 powi n"
  show "m < n"
  proof (rule ccontr)
    assume "\<not> m < n"
    then have "n \<le> m" by simp
    then have "(2::real) powi n \<le> 2 powi m" by (intro power_int_increasing) simp_all
    with l show False by simp
  qed
next
  assume "m < n"
  then show "(2::real) powi m < 2 powi n" by (intro power_int_strict_increasing) simp_all
qed

lemma powi2_le_iff: "(2::real) powi m \<le> 2 powi n \<longleftrightarrow> m \<le> n"
  using powi2_less_iff [of n m] by (simp add: not_less [symmetric])

text \<open>The exponent is the one that brackets the number between two powers of 2.\<close>

lemma expo_bounds:
  assumes "0 < a"
  shows "2 powi (expo a) \<le> a" and "a < 2 powi (expo a + 1)"
proof -
  have "2 powi (expo a) \<le> a \<and> a < 2 powi (expo a + 1)"
  proof (cases "1 \<le> a")
    case True
    define n where "n = \<lfloor>a\<rfloor>"
    have n: "0 < n" using True by (simp add: n_def)
    have k: "1 \<le> bitlen n" using n by (auto simp: bitlen_alt_def)
    from bitlen_bounds [OF n] have b: "2 ^ nat (bitlen n - 1) \<le> n" "n < 2 ^ nat (bitlen n)"
      by auto
    have e: "expo a = bitlen n - 1" using True by (simp add: expo_def n_def)
    have "(2::real) powi (bitlen n - 1) = 2 ^ nat (bitlen n - 1)"
      using k by (simp add: power_int_nonneg_exp)
    also have "\<dots> = of_int (2 ^ nat (bitlen n - 1))" by simp
    also have "\<dots> \<le> of_int n" using b(1) by (simp only: of_int_le_iff)
    also have "\<dots> \<le> a" by (simp add: n_def)
    finally have l: "2 powi (expo a) \<le> a" by (simp add: e)
    have "n + 1 \<le> 2 ^ nat (bitlen n)" using b(2) by simp
    then have "real_of_int (n + 1) \<le> of_int (2 ^ nat (bitlen n))" by (simp only: of_int_le_iff)
    moreover have "a < of_int (n + 1)" by (simp add: n_def)
    ultimately have "a < 2 ^ nat (bitlen n)" by simp
    also have "\<dots> = 2 powi (bitlen n)" using k by (simp add: power_int_nonneg_exp)
    finally have "a < 2 powi (expo a + 1)" by (simp add: e)
    with l show ?thesis by simp
  next
    case False
    define m where "m = \<lceil>1 / a\<rceil> - 1"
    have "1 < 1 / a" using False assms by simp
    then have m: "0 < m" by (simp add: m_def less_ceiling_iff)
    have k: "1 \<le> bitlen m" using m by (auto simp: bitlen_alt_def)
    from bitlen_bounds [OF m] have b: "2 ^ nat (bitlen m - 1) \<le> m" "m < 2 ^ nat (bitlen m)"
      by auto
    have e: "expo a = - bitlen m" using False by (simp add: expo_def m_def)
    have lo: "of_int m < 1 / a" unfolding m_def by linarith
    have hi: "1 / a \<le> of_int (m + 1)" unfolding m_def by simp
    have "m + 1 \<le> 2 ^ nat (bitlen m)" using b(2) by simp
    then have "real_of_int (m + 1) \<le> of_int (2 ^ nat (bitlen m))" by (simp only: of_int_le_iff)
    with hi have "1 / a \<le> 2 ^ nat (bitlen m)" by simp
    also have "\<dots> = 2 powi (bitlen m)" using k by (simp add: power_int_nonneg_exp)
    finally have "1 / a \<le> 2 powi (bitlen m)" .
    then have "1 \<le> 2 powi (bitlen m) * a" using assms by (simp add: field_simps)
    then have "1 / 2 powi (bitlen m) \<le> a" by (simp add: field_simps)
    then have l: "2 powi (expo a) \<le> a" by (simp add: e power_int_minus_divide)
    have "real_of_int (2 ^ nat (bitlen m - 1)) \<le> of_int m" using b(1) by (simp only: of_int_le_iff)
    then have "(2::real) ^ nat (bitlen m - 1) \<le> of_int m" by simp
    with lo have "2 ^ nat (bitlen m - 1) < 1 / a" by linarith
    moreover have "(2::real) ^ nat (bitlen m - 1) = 2 powi (bitlen m - 1)"
      using k by (simp add: power_int_nonneg_exp)
    ultimately have "2 powi (bitlen m - 1) < 1 / a" by simp
    then have "a * 2 powi (bitlen m - 1) < 1" using assms by (simp add: field_simps)
    then have "a < 1 / 2 powi (bitlen m - 1)" by (simp add: field_simps)
    also have "\<dots> = 2 powi (- (bitlen m - 1))" by (simp only: power_int_minus_divide)
    finally have "a < 2 powi (expo a + 1)" by (simp add: e)
    with l show ?thesis by simp
  qed
  then show "2 powi (expo a) \<le> a" and "a < 2 powi (expo a + 1)" by simp_all
qed

lemma expo_unique:
  assumes "2 powi e \<le> a" and "a < 2 powi (e + 1)"
  shows "expo a = e"
proof -
  have "0 < (2::real) powi e" by simp
  with assms(1) have a: "0 < a" by linarith
  from expo_bounds [OF a] have b: "2 powi (expo a) \<le> a" "a < 2 powi (expo a + 1)" .
  have "(2::real) powi e < 2 powi (expo a + 1)" using assms(1) b(2) by linarith
  then have "e < expo a + 1" by (simp only: powi2_less_iff)
  moreover have "(2::real) powi (expo a) < 2 powi (e + 1)" using assms(2) b(1) by linarith
  then have "expo a < e + 1" by (simp only: powi2_less_iff)
  ultimately show ?thesis by simp
qed

lemma quantum_pos: "0 < quantum a"
  by (simp add: quantum_def)

text \<open>
  A rounded result is a binary64 value: rounding it again changes nothing. So every
  finite result of an operation is a real that binary64 represents.
\<close>

lemma round64_idem:
  assumes "round64 x = Fin w"
  shows "round64 w = Fin w"
proof (cases "x = 0")
  case True
  with assms show ?thesis by (simp add: round64_def)
next
  case False
  define a where "a = \<bar>x\<bar>"
  define q where "q = quantum a"
  define n where "n = rne (a / q)"
  define m where "m = of_int n * q"
  have a: "0 < a" using False by (simp add: a_def)
  have q: "0 < q" by (simp add: q_def quantum_pos)
  have r: "round64 x = (if 2 ^ 1024 \<le> m then signed_inf (0 < x) else Fin (sgn x * m))"
    using False by (simp add: round64_def Let_def a_def q_def n_def m_def)
  have big: "\<not> 2 ^ 1024 \<le> m" and w: "w = sgn x * m"
    using assms unfolding r by (auto simp: signed_inf_def split: if_splits)
  have n0: "0 \<le> n" unfolding n_def using a q by (intro rne_ge) simp
  show ?thesis
  proof (cases "n = 0")
    case True
    then show ?thesis using w by (simp add: m_def round64_def)
  next
    case n_nz: False
    then have n: "0 < n" using n0 by simp
    have m: "0 < m" using n q by (simp add: m_def)
    have aw: "\<bar>w\<bar> = m" using m w False by (simp add: abs_mult)
    have sw: "sgn w = sgn x" using m w by (simp add: sgn_mult)
    define e where "e = expo a"
    define E where "E = max e (- 1022)"
    have eb: "2 powi e \<le> a" "a < 2 powi (e + 1)"
      using expo_bounds [OF a] by (simp_all add: e_def)
    have qq: "q = 2 powi (E - 52)" by (simp add: q_def quantum_def e_def E_def)
    have p1: "2 powi E = 2 ^ 52 * q" unfolding qq by (simp add: power_int_diff)
    have p2: "2 powi (E + 1) = 2 ^ 53 * q" unfolding qq by (simp add: power_int_diff power_int_add)
    have key: "\<exists>k. of_int k * quantum m = m"
    proof (cases "- 1022 \<le> e")
      case True
      then have E: "E = e" by (simp add: E_def)
      have "of_int (2 ^ 52) \<le> a / q" using eb(1) p1 q by (simp add: field_simps E)
      then have lo: "2 ^ 52 \<le> n" unfolding n_def by (rule rne_ge)
      have "a / q \<le> of_int (2 ^ 53)" using eb(2) p2 q by (simp add: field_simps E)
      then have hi: "n \<le> 2 ^ 53" unfolding n_def by (rule rne_le)
      show ?thesis
      proof (cases "n = 2 ^ 53")
        case True
        then have mm: "m = 2 powi (e + 1)" using p2 by (simp add: m_def E)
        have "expo m = e + 1"
        proof (rule expo_unique)
          show "2 powi (e + 1) \<le> m" by (simp only: mm order_refl)
          have "e + 1 < e + 1 + 1" by simp
          then show "m < 2 powi (e + 1 + 1)" unfolding mm by (simp only: powi2_less_iff)
        qed
        then have "quantum m = 2 powi (e + 1 - 52)" using \<open>- 1022 \<le> e\<close>
          by (simp add: quantum_def max_def)
        also have "\<dots> = 2 * q" by (simp add: qq E power_int_diff power_int_add)
        finally have "of_int (2 ^ 52) * quantum m = m" using mm p2 by (simp add: E)
        then show ?thesis by blast
      next
        case False
        with hi have "n < 2 ^ 53" by simp
        then have "real_of_int n < of_int (2 ^ 53)" by (simp only: of_int_less_iff)
        then have u: "m < 2 powi (e + 1)" using q p2 by (simp add: m_def E)
        have "real_of_int (2 ^ 52) \<le> of_int n" using lo by (simp only: of_int_le_iff)
        then have l: "2 powi e \<le> m" using q p1 by (simp add: m_def E)
        have "expo m = e" using l u by (rule expo_unique)
        then have "quantum m = q" by (simp add: quantum_def qq E_def)
        then show ?thesis by (auto simp: m_def)
      qed
    next
      case False
      then have E: "E = - 1022" by (simp add: E_def)
      have "e + 1 \<le> E" using False by (simp add: E)
      then have "(2::real) powi (e + 1) \<le> 2 powi E" by (simp only: powi2_le_iff)
      with eb(2) have "a \<le> 2 powi E" by simp
      then have "a / q \<le> of_int (2 ^ 52)" using p1 q by (simp add: field_simps)
      then have "n \<le> 2 ^ 52" unfolding n_def by (rule rne_le)
      then have "real_of_int n \<le> of_int (2 ^ 52)" by (simp only: of_int_le_iff)
      then have "m \<le> 2 powi E" using q p1 by (simp add: m_def)
      moreover have "2 powi (expo m) \<le> m" using m by (rule expo_bounds)
      ultimately have "(2::real) powi (expo m) \<le> 2 powi E" by simp
      then have "expo m \<le> E" by (simp only: powi2_le_iff)
      then have "quantum m = q" by (simp add: quantum_def qq E)
      then show ?thesis by (auto simp: m_def)
    qed
    then obtain k where k: "of_int k * quantum m = m" ..
    have qm: "0 < quantum m" by (rule quantum_pos)
    have "m / quantum m = of_int k" using k qm by (simp add: field_simps)
    then have "of_int (rne (m / quantum m)) * quantum m = m" using k by simp
    then show ?thesis using big aw sw m w by (simp add: round64_def Let_def)
  qed
qed

lemma round64_zero [simp]: "round64 0 = Fin 0"
  by (simp add: round64_def)

text \<open>The rules that compute the rounding of a given number.\<close>

lemmas round64_eval = round64_def quantum_def expo_def rne_def Let_def compute_bitlen lit_def

lemma round64_one [simp]: "round64 1 = Fin 1"
  by (simp add: round64_eval)

lemma is_float64_round64 [simp]: "is_float64 (round64 x)"
  by (cases "round64 x") (auto dest: round64_idem)

lemma is_float64_lit [simp]: "is_float64 (lit r)"
  by (simp add: lit_def)

lemma signed_inf_simps [simp]: "signed_inf True = PInf" "signed_inf False = NInf"
  by (simp_all add: signed_inf_def)

lemma is_float64_signed_inf [simp]: "is_float64 (signed_inf p)"
  by (simp add: signed_inf_def)

lemma is_float64_fadd [simp]: "is_float64 (fadd x y)"
  by (cases x; cases y) simp_all

lemma is_float64_fsub [simp]: "is_float64 (fsub x y)"
  by (simp add: fsub_def)

lemma is_float64_fmul [simp]: "is_float64 (fmul x y)"
  by (cases x; cases y) simp_all

lemma is_float64_fdiv [simp]: "is_float64 (fdiv x y)"
  by (cases x; cases y) simp_all

section \<open>Facts about the arithmetic and the transforms\<close>

lemma fadd_zero_right [simp]: "is_float64 x \<Longrightarrow> fadd x (Fin 0) = x"
  by (cases x) auto

lemma fadd_zero_left [simp]: "is_float64 x \<Longrightarrow> fadd (Fin 0) x = x"
  by (cases x) auto

lemma fmul_one_right [simp]: "is_float64 x \<Longrightarrow> fmul x (Fin 1) = x"
  by (cases x) auto

lemma fmul_one_left [simp]: "is_float64 x \<Longrightarrow> fmul (Fin 1) x = x"
  by (cases x) auto

lemma fmul_zero_fin [simp]: "is_fin x \<Longrightarrow> fmul (Fin 0) x = Fin 0"
  by (cases x) auto

lemma vec_of_3 [simp]: "vec_of [a, b, c] = (a, b, c)"
  by (simp add: vec_of_def)

text \<open>
  On a point with finite coordinates the scale matrix multiplies componentwise and the
  translation matrix adds componentwise. (On an infinite coordinate the zeros of the
  matrix give \<open>nan\<close> in the other coordinates.)
\<close>

lemma scale_point:
  "finite_vec p \<Longrightarrow> transform_point (set_block_diag eye4 f) p = vmul f p"
  by (cases p; cases f) (simp add: eye4_def)

lemma translate_point:
  "finite_vec p \<Longrightarrow> float64_vec p \<Longrightarrow> float64_vec t \<Longrightarrow>
   transform_point (set_column3 eye4 t) p = vadd p t"
  by (cases p; cases t) (simp add: eye4_def)

lemma apply_scale_finite:
  assumes "finite_mesh msh"
  shows "apply_transform (set_block_diag eye4 f) msh =
         msh\<lparr>vertices := map (vmul f) (vertices msh)\<rparr>"
proof -
  have "map (transform_point (set_block_diag eye4 f)) (vertices msh) =
        map (vmul f) (vertices msh)"
    using assms by (intro map_cong refl scale_point) (simp add: finite_mesh_def list_all_iff)
  then show ?thesis by (simp add: apply_transform_def)
qed

lemma apply_translate_finite:
  assumes "finite_mesh msh" and "float64_vec t"
  shows "apply_transform (set_column3 eye4 t) msh =
         msh\<lparr>vertices := map (\<lambda>p. vadd p t) (vertices msh)\<rparr>"
proof -
  have "map (transform_point (set_column3 eye4 t)) (vertices msh) =
        map (\<lambda>p. vadd p t) (vertices msh)"
    using assms by (intro map_cong refl translate_point) (simp_all add: finite_mesh_def list_all_iff)
  then show ?thesis by (simp add: apply_transform_def)
qed

lemma vmul_ones: "float64_vec p \<Longrightarrow> vmul (Fin 1, Fin 1, Fin 1) p = p"
  by (cases p) simp

lemma float64_fit_translation [simp]: "float64_vec (fit_translation c d e)"
  by (cases c; cases d; cases e) simp

text \<open>
  An exact shift of finite numbers commutes with the maximum and the minimum, and the
  rounded difference of two shifted numbers is the rounded difference of the numbers.
\<close>

lemma fin_list: "list_all is_fin xs \<Longrightarrow> \<exists>rs. xs = map Fin rs"
proof (induction xs)
  case Nil
  then show ?case by simp
next
  case (Cons x xs)
  then obtain rs where "xs = map Fin rs" by auto
  moreover obtain r where "x = Fin r" using Cons.prems by (cases x) auto
  ultimately have "x # xs = map Fin (r # rs)" by simp
  then show ?case by (rule exI [of _ "r # rs"])
qed

lemma fold_fmax_fin: "fold fmax (map Fin rs) (Fin r) = Fin (fold max rs r)"
  by (induction rs arbitrary: r) simp_all

lemma fold_fmin_fin: "fold fmin (map Fin rs) (Fin r) = Fin (fold min rs r)"
  by (induction rs arbitrary: r) simp_all

lemma fold_max_shift: "fold max (map (\<lambda>r. r + a) rs) (r + a) = fold max rs r + (a::real)"
  by (induction rs arbitrary: r) (simp_all add: max_add_distrib_left [symmetric])

lemma fold_min_shift: "fold min (map (\<lambda>r. r + a) rs) (r + a) = fold min rs r + (a::real)"
  by (induction rs arbitrary: r) (simp_all add: min_add_distrib_left [symmetric])

lemma ptp_fin_shift: "ptp (map Fin (map (\<lambda>r. r + a) rs)) = ptp (map Fin rs)"
  by (cases rs)
     (simp_all add: ptp_def fsub_def fold_fmax_fin fold_fmin_fin fold_max_shift fold_min_shift
        del: map_map)

lemma ptp_exact_shift:
  assumes "list_all (\<lambda>x. exact_add x (Fin a)) xs"
  shows "ptp (map (\<lambda>x. fadd x (Fin a)) xs) = ptp xs"
proof -
  have "list_all is_fin xs"
    using assms by (induction xs) (auto elim: exact_add.elims)
  then obtain rs where rs: "xs = map Fin rs"
    using fin_list by blast
  have "map (\<lambda>x. fadd x (Fin a)) xs = map Fin (map (\<lambda>r. r + a) rs)"
    using assms unfolding rs by (induction rs) simp_all
  then show ?thesis
    by (simp only: ptp_fin_shift rs)
qed

lemma extents_exact_shift:
  assumes "list_all (exact_shift (Fin a, Fin b, Fin c)) (vertices msh)"
  shows "extents (msh\<lparr>vertices := map (\<lambda>p. vadd p (Fin a, Fin b, Fin c)) (vertices msh)\<rparr>) =
         extents msh"
proof -
  let ?t = "(Fin a, Fin b, Fin c)"
  have x: "map fst (map (\<lambda>p. vadd p ?t) (vertices msh)) =
           map (\<lambda>v. fadd v (Fin a)) (map fst (vertices msh))"
    by (auto simp: split_paired_all)
  have y: "map (fst \<circ> snd) (map (\<lambda>p. vadd p ?t) (vertices msh)) =
           map (\<lambda>v. fadd v (Fin b)) (map (fst \<circ> snd) (vertices msh))"
    by (auto simp: split_paired_all)
  have z: "map (snd \<circ> snd) (map (\<lambda>p. vadd p ?t) (vertices msh)) =
           map (\<lambda>v. fadd v (Fin c)) (map (snd \<circ> snd) (vertices msh))"
    by (auto simp: split_paired_all)
  have ex: "list_all (\<lambda>x. exact_add x (Fin a)) (map fst (vertices msh))"
    using assms by (auto simp: list_all_iff)
  have ey: "list_all (\<lambda>x. exact_add x (Fin b)) (map (fst \<circ> snd) (vertices msh))"
    using assms by (auto simp: list_all_iff)
  have ez: "list_all (\<lambda>x. exact_add x (Fin c)) (map (snd \<circ> snd) (vertices msh))"
    using assms by (auto simp: list_all_iff)
  show ?thesis
    unfolding extents_def
    by (simp add: x y z ptp_exact_shift [OF ex] ptp_exact_shift [OF ey] ptp_exact_shift [OF ez]
          del: map_map)
qed

text \<open>The rules that compute the examples.\<close>

lemmas example_defs =
  unit_body_def wide_shirt_def flat_shirt_def empty_mesh_def scenario_body_def inf_mesh_def
  tetra_faces_def
  failing_lib_def identity_lib_def vertex_mean_def np_mean_def first_vertices_def
  extents_def ptp_def fsub_def apply_transform_def eye4_def post_vec_def
  nonempty_mesh_def finite_mesh_def round64_eval

lemma extents_unit_body: "extents unit_body = Some (Fin 1, Fin 1, Fin 1)"
  by (simp add: example_defs)

lemma extents_wide_shirt: "extents wide_shirt = Some (Fin 2, Fin 2, Fin 2)"
  by (simp add: example_defs)

lemma extents_flat_shirt: "extents flat_shirt = Some (Fin 0, Fin 1, Fin 1)"
  by (simp add: example_defs)

lemma extents_scenario_body: "extents scenario_body = Some (lit 1.8, lit 0.9, lit 0.5)"
  by (simp add: example_defs)

lemma finite_unit_body: "finite_mesh unit_body"
  by (simp add: example_defs)

lemma finite_wide_shirt: "finite_mesh wide_shirt"
  by (simp add: example_defs)

lemma scaled_example_eq:
  "apply_transform
     (set_block_diag eye4 (pre_scale_factors ''male'' (Fin 1, Fin 1, Fin 1) (Fin 2, Fin 2, Fin 2)))
     wide_shirt = scaled_example"
  by (simp add: example_defs scaled_example_def)

lemma positioned_example_eq:
  "apply_transform
     (set_column3 eye4
        (fit_translation (vertex_mean unit_body) (vertex_mean scaled_example) (Fin 1, Fin 1, Fin 1)))
     scaled_example = positioned_example"
  by (simp add: example_defs scaled_example_def positioned_example_def)

lemma fitted_example_eq:
  "apply_transform (set_block_diag eye4 (post_vec ''male'')) positioned_example = fitted_example"
  by (simp add: example_defs positioned_example_def fitted_example_def)

lemma scenario_scaled_eq:
  "apply_transform
     (set_block_diag eye4
        (pre_scale_factors ''male'' (lit 1.8, lit 0.9, lit 0.5) (Fin 1, Fin 1, Fin 1)))
     unit_body = scenario_scaled"
  by (simp add: example_defs scenario_scaled_def)

lemma scenario_positioned_eq:
  "apply_transform
     (set_column3 eye4
        (fit_translation (vertex_mean scenario_body) (vertex_mean scenario_scaled)
           (lit 1.8, lit 0.9, lit 0.5)))
     scenario_scaled = scenario_positioned"
  by (simp add: example_defs scenario_scaled_def scenario_positioned_def)

section \<open>The fitting pipeline, step by step\<close>

text \<open>The calls that the pipeline makes: a flat array or list of 3 numbers on a mesh.\<close>

lemma scale_mesh_ndarray3:
  "scale_mesh h (Some r) (ndarray3 v) =
     (h[r := apply_transform (set_block_diag eye4 v) (h ! r)], Returned (Some r))"
  by (cases v) (simp add: scale_mesh_def)

lemma translate_mesh_ndarray3:
  "translate_mesh h (Some r) (ndarray3 v) =
     (h[r := apply_transform (set_column3 eye4 v) (h ! r)], Returned (Some r))"
  by (cases v) (simp add: translate_mesh_def)

lemma scale_mesh_post:
  "scale_mesh h (Some r) (post_scale_factors gender) =
     (h[r := apply_transform (set_block_diag eye4 (post_vec gender)) (h ! r)], Returned (Some r))"
  by (simp add: scale_mesh_def post_scale_factors_def post_vec_def)

text \<open>
  The pipeline on two meshes that have extents, up to the registration: the store then
  holds the copy of the garment, scaled and translated.
\<close>

lemma fit_t_shirt_steps:
  assumes eb: "extents (h ! b) = Some body_size"
    and es: "extents (h ! s) = Some shirt_size"
    and sc: "scaled =
       apply_transform (set_block_diag eye4 (pre_scale_factors gender body_size shirt_size)) (h ! s)"
    and po: "positioned =
       apply_transform
         (set_column3 eye4
            (fit_translation (centroid lib ((h @ [scaled]) ! b)) (centroid lib scaled) body_size))
         scaled"
  shows "fit_t_shirt lib h (Some b) (Some s) gender =
     (case align_meshes_icp lib (h @ [positioned]) (Some b) (Some (length h)) 100 0.01 of
        (h4, Raised e) \<Rightarrow> (h4, Raised e)
      | (h4, Returned aligned) \<Rightarrow>
          (case scale_mesh h4 (case aligned of None \<Rightarrow> Some (length h) | Some a \<Rightarrow> Some a)
                  (post_scale_factors gender) of
             (h5, Raised e) \<Rightarrow> (h5, Raised e)
           | (h5, Returned final_shirt) \<Rightarrow> (h5, Returned (final_shirt, Some b))))"
  by (simp add: fit_t_shirt_def eb es deepcopy_def scale_mesh_ndarray3 translate_mesh_ndarray3
        sc [symmetric] po [symmetric])

text \<open>The whole pipeline on two meshes that have extents, by the outcome of the library.\<close>

lemma fit_t_shirt_unfold:
  assumes b: "b < length h"
    and eb: "extents (h ! b) = Some body_size"
    and es: "extents (h ! s) = Some shirt_size"
    and sc: "scaled =
       apply_transform (set_block_diag eye4 (pre_scale_factors gender body_size shirt_size)) (h ! s)"
    and po: "positioned =
       apply_transform
         (set_column3 eye4 (fit_translation (centroid lib (h ! b)) (centroid lib scaled) body_size))
         scaled"
  shows "fit_t_shirt lib h (Some b) (Some s) gender =
     (case sample lib (h ! b) 5000 of
        None \<Rightarrow> (h @ [positioned, positioned], Raised SamplingError)
      | Some target_points \<Rightarrow>
          (case sample lib positioned 5000 of
             None \<Rightarrow> (h @ [positioned, positioned], Raised SamplingError)
           | Some source_points \<Rightarrow>
               (case icp lib source_points target_points 100 0.01 of
                  IcpMatrix t \<Rightarrow>
                    (h @ [positioned,
                          apply_transform (set_block_diag eye4 (post_vec gender))
                            (apply_transform t positioned)],
                     Returned (Some (Suc (length h)), Some b))
                | _ \<Rightarrow>
                    (h @ [apply_transform (set_block_diag eye4 (post_vec gender)) positioned,
                          positioned],
                     Returned (Some (length h), Some b)))))"
proof -
  have po': "positioned =
       apply_transform
         (set_column3 eye4
            (fit_translation (centroid lib ((h @ [scaled]) ! b)) (centroid lib scaled) body_size))
         scaled"
    using b po by (simp add: nth_append)
  show ?thesis
    using b
    by (simp add: fit_t_shirt_steps [OF eb es sc po'] align_meshes_icp_def deepcopy_def
          scale_mesh_post nth_append list_update_append
        split: option.splits icp_result.splits)
qed

lemma nonempty_mesh_extents:
  assumes "nonempty_mesh msh"
  shows "\<exists>e. extents msh = Some e"
proof -
  obtain f fs where "faces msh = f # fs"
    using assms by (cases "faces msh") (auto simp: nonempty_mesh_def)
  then have "face_ok (length (vertices msh)) f"
    using assms by (simp add: nonempty_mesh_def)
  then have "vertices msh \<noteq> []"
    by (cases f) auto
  then show ?thesis by (simp add: extents_def)
qed

lemma fdiv_zero_not_fin: "\<not> is_fin (fdiv x (Fin 0))"
  by (cases x) (auto simp: signed_inf_def)

lemma fmul_not_fin: "\<not> is_fin x \<Longrightarrow> \<not> is_fin (fmul x y)"
  by (cases x; cases y) (auto simp: signed_inf_def)

text \<open>The effect of each function on the objects of the store it was not given.\<close>

lemma scale_mesh_frame:
  assumes "scale_mesh h m sf = (h', res)"
  shows "length h' = length h \<and> (\<forall>x. res = Returned x \<longrightarrow> x = None \<or> x = m)
         \<and> (\<forall>i. Some i \<noteq> m \<longrightarrow> h' ! i = h ! i)"
  using assms
  by (auto simp: scale_mesh_def split: option.splits outcome.splits bool.splits)

lemma align_meshes_icp_frame:
  assumes "align_meshes_icp lib h t s n th = (h', res)"
  shows "length h \<le> length h' \<and> (\<forall>i < length h. h' ! i = h ! i)
         \<and> (\<forall>a. res = Returned (Some a) \<longrightarrow> a = length h)"
  using assms
  by (auto simp: align_meshes_icp_def deepcopy_def Let_def nth_append
           split: option.splits if_splits icp_result.splits)

section \<open>The pre-scale factors and the translation\<close>

text \<open>
  C5, as the spec states it, fails on its own scenario. For body extents
  \<open>[1.8, 0.9, 0.5]\<close>, garment extents \<open>[1, 1, 1]\<close> and the male profile the first
  pre-scale factor is the \<open>float64\<close> product of 1.8 and 0.79, which is
  \<open>1.4220000000000002\<close>, the \<open>float64\<close> number next above \<open>1.422\<close>. The pipeline
  scales its copy of the garment by it.
\<close>

theorem scenario_factors_counterexample:
  "extents scenario_body = Some (lit 1.8, lit 0.9, lit 0.5)
   \<and> extents unit_body = Some (Fin 1, Fin 1, Fin 1)
   \<and> pre_scale_factors ''male'' (lit 1.8, lit 0.9, lit 0.5) (Fin 1, Fin 1, Fin 1) =
       (Fin (6404118670120846 / 4503599627370496), lit 0.387, lit 0.625)
   \<and> lit 1.422 = Fin (6404118670120845 / 4503599627370496)
   \<and> pre_scale_factors ''male'' (lit 1.8, lit 0.9, lit 0.5) (Fin 1, Fin 1, Fin 1) \<noteq>
       (lit 1.422, lit 0.387, lit 0.625)
   \<and> apply_transform
        (set_block_diag eye4
           (pre_scale_factors ''male'' (lit 1.8, lit 0.9, lit 0.5) (Fin 1, Fin 1, Fin 1)))
        unit_body = scenario_scaled
   \<and> apply_transform
        (set_column3 eye4
           (fit_translation (vertex_mean scenario_body) (vertex_mean scenario_scaled)
              (lit 1.8, lit 0.9, lit 0.5)))
        scenario_scaled = scenario_positioned
   \<and> fit_t_shirt failing_lib [scenario_body, unit_body] (Some 0) (Some 1) ''male'' =
       ([scenario_body, unit_body,
         apply_transform (set_block_diag eye4 (post_vec ''male'')) scenario_positioned,
         scenario_positioned],
        Returned (Some 2, Some 0))"
proof -
  let ?h = "[scenario_body, unit_body]"
  have e: "extents (?h ! 0) = Some (lit 1.8, lit 0.9, lit 0.5)"
      "extents (?h ! 1) = Some (Fin 1, Fin 1, Fin 1)"
    using extents_scenario_body extents_unit_body by simp_all
  have f: "pre_scale_factors ''male'' (lit 1.8, lit 0.9, lit 0.5) (Fin 1, Fin 1, Fin 1) =
       (Fin (6404118670120846 / 4503599627370496), lit 0.387, lit 0.625)"
    by (simp add: round64_eval)
  have l: "lit 1.422 = Fin (6404118670120845 / 4503599627370496)"
    by (simp add: round64_eval)
  have n: "pre_scale_factors ''male'' (lit 1.8, lit 0.9, lit 0.5) (Fin 1, Fin 1, Fin 1) \<noteq>
       (lit 1.422, lit 0.387, lit 0.625)"
    unfolding f l by simp
  have sc: "scenario_scaled =
       apply_transform
         (set_block_diag eye4
            (pre_scale_factors ''male'' (lit 1.8, lit 0.9, lit 0.5) (Fin 1, Fin 1, Fin 1)))
         (?h ! 1)"
    using scenario_scaled_eq by simp
  have po: "scenario_positioned =
       apply_transform
         (set_column3 eye4
            (fit_translation (centroid failing_lib (?h ! 0)) (centroid failing_lib scenario_scaled)
               (lit 1.8, lit 0.9, lit 0.5)))
         scenario_scaled"
    using scenario_positioned_eq by (simp add: failing_lib_def)
  have u: "fit_t_shirt failing_lib ?h (Some 0) (Some 1) ''male'' =
       ([scenario_body, unit_body,
         apply_transform (set_block_diag eye4 (post_vec ''male'')) scenario_positioned,
         scenario_positioned],
        Returned (Some 2, Some 0))"
    by (subst fit_t_shirt_unfold [OF _ e sc po])
       (simp_all add: failing_lib_def first_vertices_def scenario_body_def
          scenario_positioned_def tetra_faces_def)
  show ?thesis
    using e f l n u scenario_scaled_eq scenario_positioned_eq by simp
qed

text \<open>
  C5, amended. For a body and a garment that have extents, the pipeline scales its
  copy of the garment by the factors that are the componentwise \<open>float64\<close> quotient of
  the body's extents by the garment's extents, multiplied componentwise in \<open>float64\<close>
  by the ratios of the profile (0.71, 0.41, 1.42 for \<open>'female'\<close> and 0.79, 0.43, 1.25
  otherwise): the result of the call is built from the garment scaled by these factors.
  For body extents \<open>[1.8, 0.9, 0.5]\<close>, garment extents \<open>[1, 1, 1]\<close> and the male
  profile the factors are \<open>1.4220000000000002\<close>, \<open>0.387\<close> and \<open>0.625\<close> as
  \<open>float64\<close> numbers, each within \<open>2 ^ -52\<close> of 1.422, 0.387 and 0.625.
\<close>

theorem fit_t_shirt_pre_scale:
  assumes "b < length h"
    and "extents (h ! b) = Some (bx, by, bz)"
    and "extents (h ! s) = Some (sx, sy, sz)"
    and "ratios = (if gender = ''female'' then (lit 0.71, lit 0.41, lit 1.42)
                   else (lit 0.79, lit 0.43, lit 1.25))"
    and "factors = vmul (vdiv (bx, by, bz) (sx, sy, sz)) ratios"
    and "scaled = apply_transform (set_block_diag eye4 factors) (h ! s)"
    and "positioned =
       apply_transform
         (set_column3 eye4
            (fit_translation (centroid lib (h ! b)) (centroid lib scaled) (bx, by, bz)))
         scaled"
  shows "pre_scale_factors gender (bx, by, bz) (sx, sy, sz) = factors
     \<and> fit_t_shirt lib h (Some b) (Some s) gender =
         (case sample lib (h ! b) 5000 of
            None \<Rightarrow> (h @ [positioned, positioned], Raised SamplingError)
          | Some target_points \<Rightarrow>
              (case sample lib positioned 5000 of
                 None \<Rightarrow> (h @ [positioned, positioned], Raised SamplingError)
               | Some source_points \<Rightarrow>
                   (case icp lib source_points target_points 100 0.01 of
                      IcpMatrix t \<Rightarrow>
                        (h @ [positioned,
                              apply_transform (set_block_diag eye4 (post_vec gender))
                                (apply_transform t positioned)],
                         Returned (Some (Suc (length h)), Some b))
                    | _ \<Rightarrow>
                        (h @ [apply_transform (set_block_diag eye4 (post_vec gender)) positioned,
                              positioned],
                         Returned (Some (length h), Some b)))))
     \<and> pre_scale_factors ''male'' (lit 1.8, lit 0.9, lit 0.5) (Fin 1, Fin 1, Fin 1) =
         (Fin (6404118670120846 / 4503599627370496),
          Fin (871446527896191 / 2251799813685248), Fin 0.625)
     \<and> \<bar>6404118670120846 / 4503599627370496 - 1.422\<bar> \<le> (1 / 2 ^ 52 :: real)
     \<and> \<bar>871446527896191 / 2251799813685248 - 0.387\<bar> \<le> (1 / 2 ^ 52 :: real)"
proof -
  have f: "pre_scale_factors gender (bx, by, bz) (sx, sy, sz) = factors"
    using assms(4,5) by simp
  have sc: "scaled =
       apply_transform
         (set_block_diag eye4 (pre_scale_factors gender (bx, by, bz) (sx, sy, sz))) (h ! s)"
    using assms(6) f by simp
  have "pre_scale_factors ''male'' (lit 1.8, lit 0.9, lit 0.5) (Fin 1, Fin 1, Fin 1) =
         (Fin (6404118670120846 / 4503599627370496),
          Fin (871446527896191 / 2251799813685248), Fin 0.625)"
    by (simp add: round64_eval)
  moreover have "\<bar>6404118670120846 / 4503599627370496 - 1.422\<bar> \<le> (1 / 2 ^ 52 :: real)"
    by simp
  moreover have "\<bar>871446527896191 / 2251799813685248 - 0.387\<bar> \<le> (1 / 2 ^ 52 :: real)"
    by simp
  ultimately show ?thesis
    using f fit_t_shirt_unfold [OF assms(1,2,3) sc assms(7)] by simp
qed

theorem fit_t_shirt_pre_scale_witness:
  "extents scenario_body = Some (lit 1.8, lit 0.9, lit 0.5)
   \<and> extents unit_body = Some (Fin 1, Fin 1, Fin 1)
   \<and> pre_scale_factors ''male'' (lit 1.8, lit 0.9, lit 0.5) (Fin 1, Fin 1, Fin 1) =
       vmul (vdiv (lit 1.8, lit 0.9, lit 0.5) (Fin 1, Fin 1, Fin 1)) (lit 0.79, lit 0.43, lit 1.25)
   \<and> fit_t_shirt failing_lib [scenario_body, unit_body] (Some 0) (Some 1) ''male'' =
       ([scenario_body, unit_body,
         apply_transform (set_block_diag eye4 (post_vec ''male'')) scenario_positioned,
         scenario_positioned],
        Returned (Some 2, Some 0))"
proof -
  let ?h = "[scenario_body, unit_body]"
  have e: "extents (?h ! 0) = Some (lit 1.8, lit 0.9, lit 0.5)"
      "extents (?h ! 1) = Some (Fin 1, Fin 1, Fin 1)"
    using extents_scenario_body extents_unit_body by simp_all
  have r: "(lit 0.79, lit 0.43, lit 1.25) =
       (if ''male'' = ''female'' then (lit 0.71, lit 0.41, lit 1.42)
        else (lit 0.79, lit 0.43, lit 1.25))"
    by simp
  have sc: "scenario_scaled =
       apply_transform
         (set_block_diag eye4
            (vmul (vdiv (lit 1.8, lit 0.9, lit 0.5) (Fin 1, Fin 1, Fin 1))
               (lit 0.79, lit 0.43, lit 1.25)))
         (?h ! 1)"
    using scenario_scaled_eq by simp
  have po: "scenario_positioned =
       apply_transform
         (set_column3 eye4
            (fit_translation (centroid failing_lib (?h ! 0)) (centroid failing_lib scenario_scaled)
               (lit 1.8, lit 0.9, lit 0.5)))
         scenario_scaled"
    using scenario_positioned_eq by (simp add: failing_lib_def)
  have st: "sample failing_lib (?h ! 0) 5000 = Some (vertices scenario_body)"
    by (simp add: failing_lib_def first_vertices_def scenario_body_def tetra_faces_def)
  have ss: "sample failing_lib scenario_positioned 5000 = Some (vertices scenario_positioned)"
    by (simp add: failing_lib_def first_vertices_def scenario_positioned_def tetra_faces_def)
  have i: "icp failing_lib (vertices scenario_positioned) (vertices scenario_body) 100 0.01 =
       IcpRaises"
    by (simp add: failing_lib_def)
  show ?thesis
    using fit_t_shirt_pre_scale [OF _ e r refl sc po] e st ss i by simp
qed

text \<open>
  C6. For a body and a garment that have extents, the mesh that the pipeline hands to
  the registration is its copy of the garment, scaled, with a translation applied: the
  centroid of the body minus the centroid of the scaled garment, with 0.1 times the
  body's y extent added to the y component (in \<open>float64\<close>). The rest of the call is the
  registration and the last scaling on the store that holds this mesh. On a scaled
  garment with finite coordinates the applied transform adds the translation to every
  vertex.
\<close>

theorem fit_translation_applied:
  assumes "b < length h"
    and "extents (h ! b) = Some (bx, by, bz)"
    and "extents (h ! s) = Some shirt_size"
    and "scaled =
       apply_transform
         (set_block_diag eye4 (pre_scale_factors gender (bx, by, bz) shirt_size)) (h ! s)"
    and "centroid lib (h ! b) = (cx, cy, cz)"
    and "centroid lib scaled = (dx, dy, dz)"
    and "translation = (fsub cx dx, fadd (fsub cy dy) (fmul by (lit 0.1)), fsub cz dz)"
    and "positioned = apply_transform (set_column3 eye4 translation) scaled"
  shows "fit_t_shirt lib h (Some b) (Some s) gender =
     (case align_meshes_icp lib (h @ [positioned]) (Some b) (Some (length h)) 100 0.01 of
        (h4, Raised e) \<Rightarrow> (h4, Raised e)
      | (h4, Returned aligned) \<Rightarrow>
          (case scale_mesh h4 (case aligned of None \<Rightarrow> Some (length h) | Some a \<Rightarrow> Some a)
                  (post_scale_factors gender) of
             (h5, Raised e) \<Rightarrow> (h5, Raised e)
           | (h5, Returned final_shirt) \<Rightarrow> (h5, Returned (final_shirt, Some b))))
     \<and> (finite_mesh scaled \<longrightarrow>
          positioned = scaled\<lparr>vertices := map (\<lambda>p. vadd p translation) (vertices scaled)\<rparr>)"
proof -
  have t: "translation =
      fit_translation (centroid lib ((h @ [scaled]) ! b)) (centroid lib scaled) (bx, by, bz)"
    using assms(1,5,6,7) by (simp add: nth_append)
  have po: "positioned =
       apply_transform
         (set_column3 eye4
            (fit_translation (centroid lib ((h @ [scaled]) ! b)) (centroid lib scaled) (bx, by, bz)))
         scaled"
    using assms(8) t by simp
  have fl: "float64_vec translation"
    unfolding t by (rule float64_fit_translation)
  have "finite_mesh scaled \<longrightarrow>
          positioned = scaled\<lparr>vertices := map (\<lambda>p. vadd p translation) (vertices scaled)\<rparr>"
    using assms(8) fl by (simp add: apply_translate_finite)
  then show ?thesis
    using fit_t_shirt_steps [OF assms(2,3,4) po] by simp
qed

theorem fit_translation_applied_witness:
  "extents unit_body = Some (Fin 1, Fin 1, Fin 1)
   \<and> extents wide_shirt = Some (Fin 2, Fin 2, Fin 2)
   \<and> centroid identity_lib unit_body = (Fin (1 / 4), Fin (1 / 4), Fin (1 / 4))
   \<and> centroid identity_lib scaled_example =
       (Fin (889460926405673 / 4503599627370496),
        Fin (7746191359077253 / 72057594037927936), Fin (5 / 16))
   \<and> (fsub (Fin (1 / 4)) (Fin (889460926405673 / 4503599627370496)),
       fadd (fsub (Fin (1 / 4)) (Fin (7746191359077253 / 72057594037927936)))
         (fmul (Fin 1) (lit 0.1)),
       fsub (Fin (1 / 4)) (Fin (5 / 16))) =
      (Fin (236438980436951 / 4503599627370496),
       Fin (8736983277098763 / 36028797018963968), Fin (- (1 / 16)))
   \<and> finite_mesh scaled_example
   \<and> positioned_example =
       scaled_example\<lparr>vertices :=
         map (\<lambda>p. vadd p (Fin (236438980436951 / 4503599627370496),
                          Fin (8736983277098763 / 36028797018963968), Fin (- (1 / 16))))
           (vertices scaled_example)\<rparr>
   \<and> fit_t_shirt identity_lib [unit_body, wide_shirt] (Some 0) (Some 1) ''male'' =
       ([unit_body, wide_shirt, positioned_example, fitted_example],
        Returned (Some 3, Some 0))"
proof -
  let ?h = "[unit_body, wide_shirt]"
  let ?t = "(Fin (236438980436951 / 4503599627370496),
             Fin (8736983277098763 / 36028797018963968), Fin (- (1 / 16)))"
  have e: "extents (?h ! 0) = Some (Fin 1, Fin 1, Fin 1)"
      "extents (?h ! 1) = Some (Fin 2, Fin 2, Fin 2)"
    using extents_unit_body extents_wide_shirt by simp_all
  have sc: "scaled_example =
       apply_transform
         (set_block_diag eye4 (pre_scale_factors ''male'' (Fin 1, Fin 1, Fin 1) (Fin 2, Fin 2, Fin 2)))
         (?h ! 1)"
    using scaled_example_eq by simp
  have cu: "centroid identity_lib unit_body = (Fin (1 / 4), Fin (1 / 4), Fin (1 / 4))"
    by (simp add: example_defs)
  have cb: "centroid identity_lib (?h ! 0) = (Fin (1 / 4), Fin (1 / 4), Fin (1 / 4))"
    using cu by simp
  have cs: "centroid identity_lib scaled_example =
       (Fin (889460926405673 / 4503599627370496),
        Fin (7746191359077253 / 72057594037927936), Fin (5 / 16))"
    by (simp add: example_defs scaled_example_def)
  have t: "?t =
      (fsub (Fin (1 / 4)) (Fin (889460926405673 / 4503599627370496)),
       fadd (fsub (Fin (1 / 4)) (Fin (7746191359077253 / 72057594037927936)))
         (fmul (Fin 1) (lit 0.1)),
       fsub (Fin (1 / 4)) (Fin (5 / 16)))"
    by (simp add: fsub_def round64_eval)
  have po: "positioned_example = apply_transform (set_column3 eye4 ?t) scaled_example"
    by (simp add: example_defs scaled_example_def positioned_example_def)
  have fs: "finite_mesh scaled_example"
    by (simp add: example_defs scaled_example_def)
  have id: "apply_transform eye4 positioned_example = positioned_example"
    by (simp add: example_defs positioned_example_def)
  have fp: "faces positioned_example = tetra_faces"
    by (simp add: positioned_example_def)
  have al: "align_meshes_icp identity_lib (?h @ [positioned_example]) (Some 0)
              (Some (length ?h)) 100 0.01 =
            (?h @ [positioned_example, positioned_example], Returned (Some 3))"
    by (simp add: align_meshes_icp_def deepcopy_def identity_lib_def first_vertices_def id fp
          unit_body_def tetra_faces_def)
  have ps: "scale_mesh (?h @ [positioned_example, positioned_example]) (Some 3)
              (post_scale_factors ''male'') =
            (?h @ [positioned_example, fitted_example], Returned (Some 3))"
    by (simp add: scale_mesh_post fitted_example_eq)
  show ?thesis
    using fit_translation_applied [OF _ e sc cb cs t po] al ps fs cu cs t [symmetric]
      extents_unit_body extents_wide_shirt
    by simp
qed

section \<open>Scaling and translating a mesh\<close>

text \<open>
  C7, as the spec states it, fails: the function tests the \<open>len\<close> of the argument, not
  the number of its components. A 3 by 3 array has 9 components and \<open>len\<close> 3: it is
  accepted, its diagonal \<open>[2, 2, 2]\<close> is broadcast over the rows of the matrix, and
  the mesh is transformed, not left as it is and not scaled componentwise. An array of
  dimension 0 has one component: \<open>len\<close> raises a \<open>TypeError\<close>, and the function
  does not return \<open>None\<close>. And a vertex with an infinite coordinate is not multiplied
  componentwise by the factors \<open>[2, 2, 2]\<close>: the zeros of the matrix times \<open>inf\<close>
  are \<open>nan\<close>.
\<close>

theorem matrix_factors_counterexample:
  "scale_mesh [unit_body] (Some 0)
     (NdArray2 [[Fin 2, Fin 0, Fin 0], [Fin 0, Fin 2, Fin 0], [Fin 0, Fin 0, Fin 2]]) =
     ([\<lparr>vertices = [(Fin 0, Fin 0, Fin 0), (Fin 2, Fin 2, Fin 2),
                     (Fin 2, Fin 2, Fin 2), (Fin 2, Fin 2, Fin 2)],
        faces = tetra_faces\<rparr>], Returned (Some 0))
   \<and> scale_mesh [unit_body] (Some 0) (NdArray0 (Fin 2)) = ([unit_body], Raised TypeError)
   \<and> scale_mesh [inf_mesh] (Some 0) (PyList [Fin 2, Fin 2, Fin 2]) =
       ([\<lparr>vertices = [(PInf, NaN, NaN), (Fin 0, Fin 0, Fin 0), (Fin 0, Fin 2, Fin 0)],
          faces = [(0, 1, 2)]\<rparr>], Returned (Some 0))"
  by (simp add: scale_mesh_def broadcast_diagonal_def rectangular_def np_diagonal_def
        example_defs)

text \<open>
  C7, amended. \<open>scale_mesh\<close> returns \<open>None\<close> and leaves the store as it is when the
  mesh is \<open>None\<close>, when the factors are not a list or an array, or when their \<open>len\<close>
  is not 3; on factors that are an array of dimension 0 it raises a \<open>TypeError\<close> and
  leaves the store as it is. With a flat list or a one-dimensional array of 3 factors
  of any value, zero and negative included, it multiplies the coordinates of every
  vertex of a mesh with finite coordinates componentwise by the factors, in
  \<open>float64\<close> and in place.
\<close>

theorem scale_mesh_spec:
  "(mesh = None \<or> not_three sf = Returned True \<longrightarrow> scale_mesh h mesh sf = (h, Returned None))
   \<and> scale_mesh h (Some r) (NdArray0 x) = (h, Raised TypeError)
   \<and> (as_sequence sf = Some [a, b, c] \<and> finite_mesh (h ! r)
      \<longrightarrow> scale_mesh h (Some r) sf =
            (h[r := (h ! r)\<lparr>vertices := map (vmul (a, b, c)) (vertices (h ! r))\<rparr>],
             Returned (Some r)))"
proof -
  have "mesh = None \<or> not_three sf = Returned True \<longrightarrow> scale_mesh h mesh sf = (h, Returned None)"
    by (auto simp: scale_mesh_def split: option.splits)
  moreover have "scale_mesh h (Some r) (NdArray0 x) = (h, Raised TypeError)"
    by (simp add: scale_mesh_def)
  moreover have "as_sequence sf = Some [a, b, c] \<and> finite_mesh (h ! r)
      \<longrightarrow> scale_mesh h (Some r) sf =
            (h[r := (h ! r)\<lparr>vertices := map (vmul (a, b, c)) (vertices (h ! r))\<rparr>],
             Returned (Some r))"
    by (cases sf) (auto simp: scale_mesh_def apply_scale_finite)
  ultimately show ?thesis by simp
qed

theorem scale_mesh_spec_witness:
  "scale_mesh [unit_body] (Some 0) (PyList [Fin 2, Fin (- 1)]) = ([unit_body], Returned None)
   \<and> scale_mesh [unit_body] (Some 0) PyOther = ([unit_body], Returned None)
   \<and> scale_mesh [unit_body] None (NdArray0 (Fin 2)) = ([unit_body], Returned None)
   \<and> finite_mesh unit_body
   \<and> scale_mesh [unit_body] (Some 0) (NdArray [Fin 2, Fin (- 1), Fin 0]) =
       ([\<lparr>vertices = [(Fin 0, Fin 0, Fin 0), (Fin 2, Fin 0, Fin 0),
                       (Fin 0, Fin (- 1), Fin 0), (Fin 0, Fin 0, Fin 0)],
          faces = tetra_faces\<rparr>], Returned (Some 0))"
  using scale_mesh_spec [of "Some 0" "PyList [Fin 2, Fin (- 1)]" "[unit_body]"]
    scale_mesh_spec [of "Some 0" PyOther "[unit_body]"]
    scale_mesh_spec [of None "NdArray0 (Fin 2)" "[unit_body]"]
    scale_mesh_spec [of "Some 0" "NdArray [Fin 2, Fin (- 1), Fin 0]" "[unit_body]" 0 _
                        "Fin 2" "Fin (- 1)" "Fin 0"]
    finite_unit_body
  by (simp add: unit_body_def round64_eval)

text \<open>
  C8. Scaling a mesh whose coordinates are finite \<open>float64\<close> numbers by the factors
  1, 1, 1 leaves the mesh, and the whole store, unchanged.
\<close>

theorem scale_mesh_identity:
  assumes "finite_mesh (h ! r)" and "as_sequence sf = Some [Fin 1, Fin 1, Fin 1]"
  shows "scale_mesh h (Some r) sf = (h, Returned (Some r))"
proof -
  have "map (vmul (Fin 1, Fin 1, Fin 1)) (vertices (h ! r)) = vertices (h ! r)"
    using assms(1) by (intro map_idI vmul_ones) (simp add: finite_mesh_def list_all_iff)
  then have "apply_transform (set_block_diag eye4 (Fin 1, Fin 1, Fin 1)) (h ! r) = h ! r"
    using assms(1) by (simp add: apply_scale_finite)
  then show ?thesis
    using assms(2) by (cases sf) (simp_all add: scale_mesh_def)
qed

theorem scale_mesh_identity_witness:
  "finite_mesh wide_shirt
   \<and> scale_mesh [unit_body, wide_shirt] (Some 1) (PyList [Fin 1, Fin 1, Fin 1]) =
       ([unit_body, wide_shirt], Returned (Some 1))"
  using scale_mesh_identity [of "[unit_body, wide_shirt]" 1 "PyList [Fin 1, Fin 1, Fin 1]"]
    finite_wide_shirt
  by simp

text \<open>
  C9, as the spec states it, fails: the additions of the translation round. The body
  with extents \<open>[1, 1, 1]\<close> translated by \<open>[1e16, 0, 0]\<close> has all its vertices at
  \<open>x = 1e16\<close>, because \<open>1 + 1e16\<close> rounds to \<open>1e16\<close>, and its extents are
  \<open>[0, 1, 1]\<close>. Translated by \<open>[inf, 0, 0]\<close> it has the extents
  \<open>[nan, 1, 1]\<close>, and the triangle with an infinite coordinate, with extents
  \<open>[inf, 1, 1]\<close>, has the extents \<open>[inf, nan, nan]\<close> after a translation by
  \<open>[1, 0, 0]\<close>.
\<close>

theorem translate_rounding_counterexample:
  "extents unit_body = Some (Fin 1, Fin 1, Fin 1)
   \<and> translate_mesh [unit_body] (Some 0) (PyList [Fin (10 ^ 16), Fin 0, Fin 0]) =
       ([\<lparr>vertices = [(Fin (10 ^ 16), Fin 0, Fin 0), (Fin (10 ^ 16), Fin 0, Fin 0),
                       (Fin (10 ^ 16), Fin 1, Fin 0), (Fin (10 ^ 16), Fin 0, Fin 1)],
          faces = tetra_faces\<rparr>], Returned (Some 0))
   \<and> extents (fst (translate_mesh [unit_body] (Some 0) (PyList [Fin (10 ^ 16), Fin 0, Fin 0])) ! 0) =
       Some (Fin 0, Fin 1, Fin 1)
   \<and> extents (fst (translate_mesh [unit_body] (Some 0) (PyList [PInf, Fin 0, Fin 0])) ! 0) =
       Some (NaN, Fin 1, Fin 1)
   \<and> extents inf_mesh = Some (PInf, Fin 1, Fin 1)
   \<and> extents (fst (translate_mesh [inf_mesh] (Some 0) (PyList [Fin 1, Fin 0, Fin 0])) ! 0) =
       Some (PInf, NaN, NaN)"
proof -
  have t: "translate_mesh [unit_body] (Some 0) (PyList [Fin (10 ^ 16), Fin 0, Fin 0]) =
       ([\<lparr>vertices = [(Fin (10 ^ 16), Fin 0, Fin 0), (Fin (10 ^ 16), Fin 0, Fin 0),
                       (Fin (10 ^ 16), Fin 1, Fin 0), (Fin (10 ^ 16), Fin 0, Fin 1)],
          faces = tetra_faces\<rparr>], Returned (Some 0))"
    by (simp add: translate_mesh_def example_defs)
  have "extents (fst (translate_mesh [unit_body] (Some 0) (PyList [Fin (10 ^ 16), Fin 0, Fin 0])) ! 0) =
       Some (Fin 0, Fin 1, Fin 1)"
    unfolding t by (simp add: example_defs)
  moreover have "extents (fst (translate_mesh [unit_body] (Some 0) (PyList [PInf, Fin 0, Fin 0])) ! 0) =
       Some (NaN, Fin 1, Fin 1)"
    by (simp add: translate_mesh_def example_defs)
  moreover have "extents inf_mesh = Some (PInf, Fin 1, Fin 1)"
    by (simp add: example_defs)
  moreover have "extents (fst (translate_mesh [inf_mesh] (Some 0) (PyList [Fin 1, Fin 0, Fin 0])) ! 0) =
       Some (PInf, NaN, NaN)"
    by (simp add: translate_mesh_def example_defs)
  ultimately show ?thesis
    using t extents_unit_body by simp
qed

text \<open>
  C9, amended. Translating a mesh whose coordinates are finite \<open>float64\<close> numbers by a
  vector of 3 finite \<open>float64\<close> numbers does not change its extents when no addition
  rounds: when the sum of every coordinate of every vertex and the component of the
  vector is a \<open>float64\<close> number.
\<close>

theorem translate_mesh_extents:
  assumes "finite_mesh (h ! r)" and "r < length h"
    and "as_sequence v = Some [Fin a, Fin b, Fin c]"
    and "float64_vec (Fin a, Fin b, Fin c)"
    and "list_all (exact_shift (Fin a, Fin b, Fin c)) (vertices (h ! r))"
  shows "snd (translate_mesh h (Some r) v) = Returned (Some r)
         \<and> extents (fst (translate_mesh h (Some r) v) ! r) = extents (h ! r)"
proof -
  have "translate_mesh h (Some r) v =
      (h[r := (h ! r)\<lparr>vertices :=
            map (\<lambda>p. vadd p (Fin a, Fin b, Fin c)) (vertices (h ! r))\<rparr>], Returned (Some r))"
    using assms(1,3,4) apply_translate_finite [of "h ! r" "(Fin a, Fin b, Fin c)"]
    by (cases v) (simp_all add: translate_mesh_def)
  then show ?thesis
    using assms(2) extents_exact_shift [OF assms(5)] by simp
qed

theorem translate_mesh_extents_witness:
  "finite_mesh unit_body
   \<and> list_all (exact_shift (Fin 2, Fin (- 1), Fin 0)) (vertices unit_body)
   \<and> fst (translate_mesh [unit_body] (Some 0) (PyList [Fin 2, Fin (- 1), Fin 0])) ! 0 =
       \<lparr>vertices = [(Fin 2, Fin (- 1), Fin 0), (Fin 3, Fin (- 1), Fin 0),
                    (Fin 2, Fin 0, Fin 0), (Fin 2, Fin (- 1), Fin 1)],
        faces = tetra_faces\<rparr>
   \<and> extents (fst (translate_mesh [unit_body] (Some 0) (PyList [Fin 2, Fin (- 1), Fin 0])) ! 0) =
       Some (Fin 1, Fin 1, Fin 1)
   \<and> extents unit_body = Some (Fin 1, Fin 1, Fin 1)"
proof -
  have t: "fst (translate_mesh [unit_body] (Some 0) (PyList [Fin 2, Fin (- 1), Fin 0])) ! 0 =
       \<lparr>vertices = [(Fin 2, Fin (- 1), Fin 0), (Fin 3, Fin (- 1), Fin 0),
                    (Fin 2, Fin 0, Fin 0), (Fin 2, Fin (- 1), Fin 1)],
        faces = tetra_faces\<rparr>"
    by (simp add: translate_mesh_def example_defs)
  have f: "float64_vec (Fin 2, Fin (- 1), Fin 0)"
    by (simp add: round64_eval)
  have x: "list_all (exact_shift (Fin 2, Fin (- 1), Fin 0)) (vertices ([unit_body] ! 0))"
    by (simp add: unit_body_def round64_eval)
  show ?thesis
    using translate_mesh_extents [of "[unit_body]" 0 "PyList [Fin 2, Fin (- 1), Fin 0]" 2 "- 1" 0,
        OF _ _ _ f x]
      extents_unit_body finite_unit_body t x
    by simp
qed

section \<open>The fitting pipeline\<close>

text \<open>
  C2, as the spec states it, fails: the pipeline checks for \<open>None\<close> only. On a mesh
  with no vertex and no triangle the call does not return the pair \<open>(None, None)\<close>;
  the extents of the mesh are \<open>None\<close> and the division raises.
\<close>

theorem empty_mesh_counterexample:
  "faces empty_mesh = []
   \<and> fit_t_shirt failing_lib [unit_body, empty_mesh] (Some 0) (Some 1) ''male'' =
       ([unit_body, empty_mesh], Raised TypeError)"
  by (simp add: fit_t_shirt_def extents_def empty_mesh_def unit_body_def)

text \<open>
  C2, amended. When the body or the garment is \<open>None\<close>, the pipeline returns the pair
  \<open>(None, None)\<close> and the store is unchanged: no transform was performed.
\<close>

theorem null_mesh_returns_none:
  assumes "body_mesh = None \<or> shirt_mesh = None"
  shows "fit_t_shirt lib h body_mesh shirt_mesh gender = (h, Returned (None, None))"
  using assms by (auto simp: fit_t_shirt_def split: option.splits)

theorem null_mesh_returns_none_witness:
  "fit_t_shirt failing_lib [unit_body, wide_shirt] (Some 0) None ''male'' =
     ([unit_body, wide_shirt], Returned (None, None))
   \<and> fit_t_shirt failing_lib [unit_body, wide_shirt] None (Some 1) ''male'' =
     ([unit_body, wide_shirt], Returned (None, None))"
  using null_mesh_returns_none [of "Some 0" None failing_lib "[unit_body, wide_shirt]" "''male''"]
    null_mesh_returns_none [of None "Some 1" failing_lib "[unit_body, wide_shirt]" "''male''"]
  by simp

text \<open>
  C1, as the spec states it, fails: on a garment with extents \<open>[0, 1, 1]\<close> the
  pipeline raises nothing and returns a pair; the coordinates of the returned garment
  are \<open>nan\<close>.
\<close>

theorem zero_extent_counterexample:
  "extents flat_shirt = Some (Fin 0, Fin 1, Fin 1)
   \<and> fit_t_shirt failing_lib [unit_body, flat_shirt] (Some 0) (Some 1) ''male'' =
       ([unit_body, flat_shirt, nan_shirt, nan_shirt], Returned (Some 2, Some 0))"
proof -
  have e: "extents ([unit_body, flat_shirt] ! 1) = Some (Fin 0, Fin 1, Fin 1)"
    using extents_flat_shirt by simp
  have b: "extents ([unit_body, flat_shirt] ! 0) = Some (Fin 1, Fin 1, Fin 1)"
    using extents_unit_body by simp
  have u: "fit_t_shirt failing_lib [unit_body, flat_shirt] (Some 0) (Some 1) ''male'' =
       ([unit_body, flat_shirt, nan_shirt, nan_shirt], Returned (Some 2, Some 0))"
    by (subst fit_t_shirt_unfold [OF _ b e refl refl])
       (simp_all add: example_defs nan_shirt_def)
  with extents_flat_shirt show ?thesis by simp
qed

text \<open>
  C1, amended. When an extent of the garment is zero, the division gives \<open>inf\<close> or
  \<open>nan\<close>, so the scale factors are not three finite numbers, and the pipeline goes on:
  the call returns a garment and the body, unless the sampler raises.
\<close>

theorem zero_extent_divides_silently:
  assumes "b < length h" and "s < length h"
    and "extents (h ! b) = Some (bx, by, bz)"
    and "extents (h ! s) = Some (sx, sy, sz)"
    and "sx = Fin 0 \<or> sy = Fin 0 \<or> sz = Fin 0"
  shows "\<not> finite_vec (pre_scale_factors gender (bx, by, bz) (sx, sy, sz))
         \<and> (\<exists>h'. fit_t_shirt lib h (Some b) (Some s) gender = (h', Raised SamplingError)
              \<or> (\<exists>f. fit_t_shirt lib h (Some b) (Some s) gender =
                       (h', Returned (Some f, Some b))))"
proof -
  have "\<not> finite_vec (pre_scale_factors gender (bx, by, bz) (sx, sy, sz))"
    using assms(5) by (auto simp: fdiv_zero_not_fin fmul_not_fin)
  moreover have "\<exists>h'. fit_t_shirt lib h (Some b) (Some s) gender = (h', Raised SamplingError)
              \<or> (\<exists>f. fit_t_shirt lib h (Some b) (Some s) gender =
                       (h', Returned (Some f, Some b)))"
    by (simp add: fit_t_shirt_unfold [OF assms(1,3,4) refl refl]
          split: option.splits icp_result.splits)
  ultimately show ?thesis by simp
qed

theorem zero_extent_divides_silently_witness:
  "extents unit_body = Some (Fin 1, Fin 1, Fin 1)
   \<and> extents flat_shirt = Some (Fin 0, Fin 1, Fin 1)
   \<and> pre_scale_factors ''male'' (Fin 1, Fin 1, Fin 1) (Fin 0, Fin 1, Fin 1) =
       (PInf, lit 0.43, lit 1.25)
   \<and> \<not> finite_vec (pre_scale_factors ''male'' (Fin 1, Fin 1, Fin 1) (Fin 0, Fin 1, Fin 1))"
  using zero_extent_divides_silently [of 0 "[unit_body, flat_shirt]" 1 "Fin 1" "Fin 1" "Fin 1"
      "Fin 0" "Fin 1" "Fin 1" "''male''" failing_lib] extents_flat_shirt extents_unit_body
  by (simp add: round64_eval)

text \<open>
  C3. For a body and a garment with at least one triangle each, when both samplings
  succeed and the registration raises or returns \<open>None\<close>, the pipeline returns the
  positioned garment (the copy of the garment, scaled and translated) with the last
  scaling applied, and the body.
\<close>

theorem icp_failure_falls_back:
  assumes "b < length h" and "s < length h"
    and "nonempty_mesh (h ! b)" and "nonempty_mesh (h ! s)"
    and "scaled =
       apply_transform
         (set_block_diag eye4
            (pre_scale_factors gender (the (extents (h ! b))) (the (extents (h ! s)))))
         (h ! s)"
    and "positioned =
       apply_transform
         (set_column3 eye4
            (fit_translation (centroid lib (h ! b)) (centroid lib scaled) (the (extents (h ! b)))))
         scaled"
    and "sample lib (h ! b) 5000 = Some target_points"
    and "sample lib positioned 5000 = Some source_points"
    and "icp lib source_points target_points 100 0.01 = IcpRaises
         \<or> icp lib source_points target_points 100 0.01 = IcpNone"
  shows "fit_t_shirt lib h (Some b) (Some s) gender =
           (h @ [apply_transform (set_block_diag eye4 (post_vec gender)) positioned, positioned],
            Returned (Some (length h), Some b))"
proof -
  obtain eb es where e: "extents (h ! b) = Some eb" "extents (h ! s) = Some es"
    using assms(3,4) nonempty_mesh_extents by blast
  show ?thesis
    using assms(7,8,9) fit_t_shirt_unfold [OF assms(1) e, of scaled gender positioned lib]
      assms(5,6) e
    by auto
qed

theorem icp_failure_falls_back_witness:
  "nonempty_mesh unit_body \<and> nonempty_mesh wide_shirt
   \<and> icp failing_lib (vertices positioned_example) (vertices unit_body) 100 0.01 = IcpRaises
   \<and> fit_t_shirt failing_lib [unit_body, wide_shirt] (Some 0) (Some 1) ''male'' =
       ([unit_body, wide_shirt, fitted_example, positioned_example], Returned (Some 2, Some 0))"
proof -
  let ?h = "[unit_body, wide_shirt]"
  have n: "nonempty_mesh (?h ! 0)" "nonempty_mesh (?h ! 1)"
    by (simp_all add: unit_body_def wide_shirt_def tetra_faces_def nonempty_mesh_def)
  have sc: "scaled_example =
       apply_transform
         (set_block_diag eye4
            (pre_scale_factors ''male'' (the (extents (?h ! 0))) (the (extents (?h ! 1)))))
         (?h ! 1)"
    using scaled_example_eq extents_unit_body extents_wide_shirt by simp
  have po: "positioned_example =
       apply_transform
         (set_column3 eye4
            (fit_translation (centroid failing_lib (?h ! 0)) (centroid failing_lib scaled_example)
               (the (extents (?h ! 0)))))
         scaled_example"
    using positioned_example_eq extents_unit_body by (simp add: failing_lib_def)
  have st: "sample failing_lib (?h ! 0) 5000 = Some (vertices unit_body)"
    by (simp add: failing_lib_def first_vertices_def unit_body_def tetra_faces_def)
  have ss: "sample failing_lib positioned_example 5000 = Some (vertices positioned_example)"
    by (simp add: failing_lib_def first_vertices_def positioned_example_def tetra_faces_def)
  have i: "icp failing_lib (vertices positioned_example) (vertices unit_body) 100 0.01 = IcpRaises"
    by (simp add: failing_lib_def)
  show ?thesis
    using icp_failure_falls_back [OF _ _ n sc po st ss] i fitted_example_eq n by simp
qed

text \<open>
  C4. Whatever the call does, every mesh that was in the store before the call is
  unchanged after it, the caller's garment and body included; when the call returns a
  garment, that garment is a new object and the second result is the body that was
  passed.
\<close>

theorem fit_t_shirt_frame:
  assumes "fit_t_shirt lib h body_mesh shirt_mesh gender = (h', res)"
  shows "length h \<le> length h' \<and> (\<forall>r < length h. h' ! r = h ! r)
         \<and> (\<forall>f x. res = Returned (Some f, x) \<longrightarrow> x = body_mesh \<and> length h \<le> f)"
proof (cases "\<exists>b s bs ss. body_mesh = Some b \<and> shirt_mesh = Some s
                \<and> extents (h ! b) = Some bs \<and> extents (h ! s) = Some ss")
  case False
  then show ?thesis
    using assms by (auto simp: fit_t_shirt_def split: option.splits)
next
  case True
  then obtain b s bs ss where in_ok: "body_mesh = Some b" "shirt_mesh = Some s"
      "extents (h ! b) = Some bs" "extents (h ! s) = Some ss"
    by blast
  define scaled where
    "scaled = apply_transform (set_block_diag eye4 (pre_scale_factors gender bs ss)) (h ! s)"
  define positioned where
    "positioned =
       apply_transform
         (set_column3 eye4
            (fit_translation (centroid lib ((h @ [scaled]) ! b)) (centroid lib scaled) bs))
         scaled"
  define h3 where "h3 = h @ [positioned]"
  note steps = fit_t_shirt_steps [OF in_ok(3,4) scaled_def positioned_def]
  obtain h4 res4 where al: "align_meshes_icp lib h3 (Some b) (Some (length h)) 100 0.01 = (h4, res4)"
    by (cases "align_meshes_icp lib h3 (Some b) (Some (length h)) 100 0.01")
  note f4 = align_meshes_icp_frame [OF al]
  have l4: "length h < length h4" "\<forall>i < length h. h4 ! i = h ! i"
    using f4 by (auto simp: h3_def nth_append)
  show ?thesis
  proof (cases res4)
    case (Raised e)
    then have "h' = h4" "res = Raised e"
      using assms in_ok steps al by (simp_all add: h3_def)
    then show ?thesis using l4 by simp
  next
    case (Returned aligned)
    define aligned_shirt where
      "aligned_shirt = (case aligned of None \<Rightarrow> Some (length h) | Some a \<Rightarrow> Some a)"
    obtain h5 res5 where fin: "scale_mesh h4 aligned_shirt (post_scale_factors gender) = (h5, res5)"
      by (cases "scale_mesh h4 aligned_shirt (post_scale_factors gender)")
    note f5 = scale_mesh_frame [OF fin]
    have as: "\<exists>a. aligned_shirt = Some a \<and> length h \<le> a"
      using f4 Returned by (auto simp: aligned_shirt_def h3_def split: option.splits)
    have h5: "length h \<le> length h5" "\<forall>i < length h. h5 ! i = h ! i"
      using f5 l4 as by auto
    show ?thesis
    proof (cases res5)
      case (Raised e)
      then have "h' = h5" "res = Raised e"
        using assms in_ok steps al Returned fin by (simp_all add: h3_def aligned_shirt_def)
      then show ?thesis using h5 by simp
    next
      case ret: (Returned final_shirt)
      then have r: "h' = h5" "res = Returned (final_shirt, body_mesh)"
        using assms in_ok steps al Returned fin by (simp_all add: h3_def aligned_shirt_def)
      have "\<forall>f. final_shirt = Some f \<longrightarrow> length h \<le> f"
        using f5 as ret by auto
      then show ?thesis using r h5 by simp
    qed
  qed
qed

theorem fit_t_shirt_frame_witness:
  "fst (fit_t_shirt identity_lib [unit_body, wide_shirt] (Some 0) (Some 1) ''female'') ! 0 =
     unit_body
   \<and> fst (fit_t_shirt identity_lib [unit_body, wide_shirt] (Some 0) (Some 1) ''female'') ! 1 =
     wide_shirt
   \<and> snd (fit_t_shirt identity_lib [unit_body, wide_shirt] (Some 0) (Some 1) ''female'') =
     Returned (Some 3, Some 0)"
proof -
  let ?fit = "fit_t_shirt identity_lib [unit_body, wide_shirt] (Some 0) (Some 1) ''female''"
  have e: "extents ([unit_body, wide_shirt] ! 0) = Some (Fin 1, Fin 1, Fin 1)"
     "extents ([unit_body, wide_shirt] ! 1) = Some (Fin 2, Fin 2, Fin 2)"
    using extents_unit_body extents_wide_shirt by simp_all
  have r: "snd ?fit = Returned (Some 3, Some 0)"
    by (subst fit_t_shirt_unfold [OF _ e refl refl])
       (simp_all add: identity_lib_def first_vertices_def apply_transform_def wide_shirt_def
          unit_body_def tetra_faces_def)
  have "fst ?fit ! 0 = [unit_body, wide_shirt] ! 0 \<and> fst ?fit ! 1 = [unit_body, wide_shirt] ! 1"
    using fit_t_shirt_frame [of identity_lib "[unit_body, wide_shirt]" "Some 0" "Some 1"
        "''female''" "fst ?fit" "snd ?fit"]
    by simp
  with r show ?thesis by simp
qed



end
